theory Spec2Isabelle
  imports Main "HOL-Library.Word"
begin

section \<open>JavaScript values used by the registration route\<close>

text \<open>
  A JavaScript string is a sequence of UTF-16 code units; \<open>length\<close> counts code units.
\<close>

type_synonym code_unit = "16 word"
type_synonym jsstring = "code_unit list"

definition js :: "string \<Rightarrow> jsstring" where
  "js s = map (\<lambda>c. of_nat (of_char c)) s"

text \<open>
  Numbers. Only \<open>NaN\<close> and integers arise in this module (results of \<open>parseInt\<close> and
  sums of single digits). \<open>Num n\<close> stands for the Number nearest the integer \<open>n\<close>;
  rounding is monotone and exact below \<open>2 ^ 53\<close>, so the comparisons with 1, 5 and 20
  made by the source agree with the comparisons on \<open>n\<close>.
\<close>

datatype jsnumber = NaN | Num int

datatype jsvalue = JUndefined | JNumber jsnumber | JString jsstring

fun isNaN :: "jsnumber \<Rightarrow> bool" where
  "isNaN NaN = True"
| "isNaN (Num n) = False"

fun js_add :: "jsnumber \<Rightarrow> jsnumber \<Rightarrow> jsnumber" where
  "js_add (Num a) (Num b) = Num (a + b)"
| "js_add a b = NaN"

fun js_ge :: "jsnumber \<Rightarrow> int \<Rightarrow> bool" where
  "js_ge (Num a) k = (k \<le> a)"
| "js_ge NaN k = False"

fun js_le :: "jsnumber \<Rightarrow> int \<Rightarrow> bool" where
  "js_le (Num a) k = (a \<le> k)"
| "js_le NaN k = False"

subsection \<open>Iterating a string: \<open>for (const char of s)\<close>\<close>

definition isHighSurrogate :: "code_unit \<Rightarrow> bool" where
  "isHighSurrogate c \<longleftrightarrow> 0xD800 \<le> c \<and> c \<le> 0xDBFF"

definition isLowSurrogate :: "code_unit \<Rightarrow> bool" where
  "isLowSurrogate c \<longleftrightarrow> 0xDC00 \<le> c \<and> c \<le> 0xDFFF"

text \<open>
  The string iterator yields one string per code point: a high surrogate followed by a
  low surrogate is yielded as one two-unit string, every other code unit on its own.
\<close>

fun codePoints :: "jsstring \<Rightarrow> jsstring list" where
  "codePoints [] = []"
| "codePoints [c] = [[c]]"
| "codePoints (c # d # cs) =
     (if isHighSurrogate c \<and> isLowSurrogate d then [c, d] # codePoints cs
      else [c] # codePoints (d # cs))"

subsection \<open>\<open>parseInt\<close> with no radix argument\<close>

text \<open>White space and line terminators, as trimmed by \<open>parseInt\<close> and matched by \<open>\s\<close>.\<close>

definition isWhiteSpace :: "code_unit \<Rightarrow> bool" where
  "isWhiteSpace c \<longleftrightarrow>
     c \<in> {0x09, 0x0A, 0x0B, 0x0C, 0x0D, 0x20, 0xA0, 0x1680, 0x2028, 0x2029,
          0x202F, 0x205F, 0x3000, 0xFEFF} \<or> (0x2000 \<le> c \<and> c \<le> 0x200A)"

definition isDecimalDigit :: "code_unit \<Rightarrow> bool" where
  "isDecimalDigit c \<longleftrightarrow> 0x30 \<le> c \<and> c \<le> 0x39"

text \<open>The value of \<open>c\<close> as a digit of radix \<open>R\<close>, if it is one.\<close>

definition radixDigit :: "nat \<Rightarrow> code_unit \<Rightarrow> nat option" where
  "radixDigit R c =
     (let v = (if 0x30 \<le> c \<and> c \<le> 0x39 then Some (unat c - 48)
               else if 0x61 \<le> c \<and> c \<le> 0x7A then Some (unat c - 87)
               else if 0x41 \<le> c \<and> c \<le> 0x5A then Some (unat c - 55)
               else None)
      in case v of None \<Rightarrow> None | Some d \<Rightarrow> if d < R then Some d else None)"

definition radixValue :: "nat \<Rightarrow> jsstring \<Rightarrow> nat" where
  "radixValue R Z = foldl (\<lambda>n c. n * R + (case radixDigit R c of Some d \<Rightarrow> d | None \<Rightarrow> 0)) 0 Z"

text \<open>
  \<open>parseInt(string)\<close>: trim leading white space, read an optional sign, strip a
  \<open>0x\<close>/\<open>0X\<close> prefix (then the radix is 16, otherwise 10), take the longest prefix of
  digits of that radix; no digit gives \<open>NaN\<close>. Whatever follows the digits is ignored.
\<close>

definition parseInt :: "jsstring \<Rightarrow> jsnumber" where
  "parseInt inputString =
     (let S = dropWhile isWhiteSpace inputString;
          sign = (case S of c # _ \<Rightarrow> if c = 0x2D then - 1 else 1 | [] \<Rightarrow> (1::int));
          S1 = (case S of c # rest \<Rightarrow> if c = 0x2B \<or> c = 0x2D then rest else S | [] \<Rightarrow> S);
          stripPrefix = (case S1 of a # b # _ \<Rightarrow> a = 0x30 \<and> (b = 0x78 \<or> b = 0x58) | _ \<Rightarrow> False);
          R = (if stripPrefix then 16 else 10);
          S2 = (if stripPrefix then drop 2 S1 else S1);
          Z = takeWhile (\<lambda>c. radixDigit R c \<noteq> None) S2
      in if Z = [] then NaN else Num (sign * int (radixValue R Z)))"

section \<open>The validators of \<open>register.ts\<close>\<close>

text \<open>
  \<open>validationFunctions\<close> is imported from \<open>core/utilities\<close>, which is not among the
  sources: its two functions used here are parameters of the model.
\<close>

record validationFunctions =
  isStringProvided :: "jsvalue \<Rightarrow> bool"
  isNumberProvided :: "jsvalue \<Rightarrow> bool"

subsection \<open>\<open>isValidPassword\<close>\<close>

text \<open>
  The character class of \<open>testSpecial\<close>:
  \<^verbatim>\<open>! @ # $ % ^ & * ( ) _ + - = [ ] { } ; ' : " \ | , . < > / ?\<close>
\<close>

definition isSpecialChar :: "code_unit \<Rightarrow> bool" where
  "isSpecialChar c \<longleftrightarrow>
     c \<in> {0x21, 0x40, 0x23, 0x24, 0x25, 0x5E, 0x26, 0x2A, 0x28, 0x29, 0x5F, 0x2B, 0x2D,
          0x3D, 0x5B, 0x5D, 0x7B, 0x7D, 0x3B, 0x27, 0x3A, 0x22, 0x5C, 0x7C, 0x2C, 0x2E,
          0x3C, 0x3E, 0x2F, 0x3F}"

text \<open>\<open>testSpecial.test(s)\<close> for the pattern \<open>^[class]*$\<close>: every code unit is in the class.\<close>

definition testSpecial :: "jsstring \<Rightarrow> bool" where
  "testSpecial s = list_all isSpecialChar s"

text \<open>The body of the \<open>for\<close> loop, on the variables \<open>(sum, isNum, hasSpecialChar)\<close> (\<open>sum\<close> is written \<open>sumv\<close>).\<close>

fun passwordLoop ::
  "validationFunctions \<Rightarrow> jsstring list \<Rightarrow> jsnumber \<times> bool \<times> bool \<Rightarrow> jsnumber \<times> bool \<times> bool" where
  "passwordLoop vf [] st = st"
| "passwordLoop vf (char # rest) (sumv, isNum, hasSpecialChar) =
     (if isNumberProvided vf (JNumber (parseInt char)) \<and> \<not> isNaN (parseInt char)
      then passwordLoop vf rest (js_add (parseInt char) sumv, True, hasSpecialChar)
      else if testSpecial char
      then passwordLoop vf rest (sumv, isNum, True)
      else passwordLoop vf rest (sumv, isNum, hasSpecialChar))"

definition isValidPassword :: "validationFunctions \<Rightarrow> jsstring \<Rightarrow> bool" where
  "isValidPassword vf password =
     (if length password < 15 then False
      else case passwordLoop vf (codePoints password) (Num 0, False, False) of
             (sumv, isNum, hasSpecialChar) \<Rightarrow> isNum \<and> hasSpecialChar \<and> sumv = Num 20)"

text \<open>The numeric value a code unit contributes to the digit sum.\<close>

definition digitValue :: "code_unit \<Rightarrow> int" where
  "digitValue c = (if isDecimalDigit c then int (unat c) - 48 else 0)"


subsection \<open>\<open>isValidPhone\<close> and \<open>isValidRole\<close>\<close>

definition isValidPhone :: "validationFunctions \<Rightarrow> jsstring \<Rightarrow> bool" where
  "isValidPhone vf phone \<longleftrightarrow> isStringProvided vf (JString phone) \<and> 10 \<le> length phone"

definition isValidRole :: "validationFunctions \<Rightarrow> jsstring \<Rightarrow> bool" where
  "isValidRole vf priority \<longleftrightarrow>
     isNumberProvided vf (JString priority) \<and>
     js_ge (parseInt priority) 1 \<and> js_le (parseInt priority) 5"

subsection \<open>Regular expressions and \<open>isValidEmail\<close>\<close>

text \<open>
  The email pattern uses only character classes, concatenation, alternation and
  repetition, between \<open>^\<close> and \<open>$\<close> and without flags: \<open>match\<close> finds a match exactly
  when the whole string belongs to the language of the pattern. Membership is computed
  with derivatives.
\<close>

datatype rexp =
    Zero
  | Eps
  | Chr "code_unit \<Rightarrow> bool"
  | Cat rexp rexp
  | Alt rexp rexp
  | Star rexp

fun nullable :: "rexp \<Rightarrow> bool" where
  "nullable Zero = False"
| "nullable Eps = True"
| "nullable (Chr P) = False"
| "nullable (Cat r s) = (nullable r \<and> nullable s)"
| "nullable (Alt r s) = (nullable r \<or> nullable s)"
| "nullable (Star r) = True"

fun deriv :: "code_unit \<Rightarrow> rexp \<Rightarrow> rexp" where
  "deriv c Zero = Zero"
| "deriv c Eps = Zero"
| "deriv c (Chr P) = (if P c then Eps else Zero)"
| "deriv c (Cat r s) =
     (if nullable r then Alt (Cat (deriv c r) s) (deriv c s) else Cat (deriv c r) s)"
| "deriv c (Alt r s) = Alt (deriv c r) (deriv c s)"
| "deriv c (Star r) = Cat (deriv c r) (Star r)"

fun matches :: "rexp \<Rightarrow> jsstring \<Rightarrow> bool" where
  "matches r [] = nullable r"
| "matches r (c # cs) = matches (deriv c r) cs"

definition Plus :: "rexp \<Rightarrow> rexp" where
  "Plus r = Cat r (Star r)"

definition Opt :: "rexp \<Rightarrow> rexp" where
  "Opt r = Alt r Eps"

definition Lit :: "code_unit \<Rightarrow> rexp" where
  "Lit a = Chr (\<lambda>c. c = a)"

text \<open>\<open>.\<close> matches every code unit but the line terminators.\<close>

definition anyChar :: "code_unit \<Rightarrow> bool" where
  "anyChar c \<longleftrightarrow> c \<notin> {0x0A, 0x0D, 0x2028, 0x2029}"

text \<open>The class \<^verbatim>\<open>[^<>()[\]\\.,;:\s@"]\<close>.\<close>

definition atomChar :: "code_unit \<Rightarrow> bool" where
  "atomChar c \<longleftrightarrow>
     \<not> (c \<in> {0x3C, 0x3E, 0x28, 0x29, 0x5B, 0x5D, 0x5C, 0x2E, 0x2C, 0x3B, 0x3A, 0x40, 0x22}
        \<or> isWhiteSpace c)"

text \<open>The class \<^verbatim>\<open>[a-zA-Z\-0-9]\<close>.\<close>

definition labelChar :: "code_unit \<Rightarrow> bool" where
  "labelChar c \<longleftrightarrow>
     (0x61 \<le> c \<and> c \<le> 0x7A) \<or> (0x41 \<le> c \<and> c \<le> 0x5A) \<or> c = 0x2D \<or> (0x30 \<le> c \<and> c \<le> 0x39)"

text \<open>The class \<^verbatim>\<open>[a-zA-Z]\<close>.\<close>

definition letterChar :: "code_unit \<Rightarrow> bool" where
  "letterChar c \<longleftrightarrow> (0x61 \<le> c \<and> c \<le> 0x7A) \<or> (0x41 \<le> c \<and> c \<le> 0x5A)"

text \<open>\<^verbatim>\<open>[0-9]{1,3}\<close>\<close>

definition octet :: rexp where
  "octet = Cat (Chr isDecimalDigit) (Cat (Opt (Chr isDecimalDigit)) (Opt (Chr isDecimalDigit)))"

text \<open>
  The local part: \<^verbatim>\<open>([^...]+(\.[^...]+)*)|.(".+")\<close>, and the domain:
  \<^verbatim>\<open>(\[[0-9]{1,3}\.[0-9]{1,3}\.[0-9]{1,3}\.[0-9]{1,3}\])|(([a-zA-Z\-0-9]+\.)+[a-zA-Z]{2,})\<close>.
\<close>

definition localPart :: rexp where
  "localPart =
     Alt (Cat (Plus (Chr atomChar)) (Star (Cat (Lit 0x2E) (Plus (Chr atomChar)))))
         (Cat (Chr anyChar) (Cat (Lit 0x22) (Cat (Plus (Chr anyChar)) (Lit 0x22))))"

definition domainPart :: rexp where
  "domainPart =
     Alt (Cat (Lit 0x5B) (Cat octet (Cat (Lit 0x2E) (Cat octet (Cat (Lit 0x2E)
            (Cat octet (Cat (Lit 0x2E) (Cat octet (Lit 0x5D)))))))))
         (Cat (Plus (Cat (Plus (Chr labelChar)) (Lit 0x2E)))
              (Cat (Chr letterChar) (Cat (Chr letterChar) (Star (Chr letterChar)))))"

definition emailPattern :: rexp where
  "emailPattern = Cat localPart (Cat (Lit 0x40) domainPart)"

text \<open>
  \<open>isValidEmail\<close> returns what \<open>match\<close> returns: \<open>null\<close> (\<open>None\<close>) or the match array,
  of which the model keeps element 0, the matched text. The callers use it as a
  condition: an array is truthy, \<open>null\<close> is falsy. \<open>toLowerCase\<close> is the built-in of the
  language, whose Unicode case tables are a parameter here.
\<close>

definition isValidEmail :: "(jsstring \<Rightarrow> jsstring) \<Rightarrow> jsstring \<Rightarrow> jsstring option" where
  "isValidEmail toLowerCase email =
     (let lowered = toLowerCase email
      in if matches emailPattern lowered then Some lowered else None)"


section \<open>The \<open>POST /register\<close> route\<close>

subsection \<open>Requests, responses, errors\<close>

text \<open>
  The request body is an object whose members are strings, as the route documents them
  (\<^verbatim>\<open>@apiBody {String}\<close>); a member that is absent reads as \<open>undefined\<close>.
\<close>

record request =
  body :: "string \<rightharpoonup> jsstring"
  req_id :: jsvalue

definition field :: "request \<Rightarrow> string \<Rightarrow> jsvalue" where
  "field req name = (case body req name of None \<Rightarrow> JUndefined | Some s \<Rightarrow> JString s)"

datatype response_body =
    Message string
  | AccessToken jsstring jsvalue

record response =
  status :: nat
  payload :: response_body

text \<open>
  Errors thrown or passed to \<open>catch\<close>. A database error carries the name of the violated
  constraint, when there is one, besides its other details.
\<close>

record db_error =
  code :: string
  constraint :: "jsstring option"
  detail :: string

datatype js_error =
    TypeError
  | DatabaseError db_error
  | OtherError string

text \<open>\<open>error.constraint\<close>\<close>

fun error_constraint :: "js_error \<Rightarrow> jsstring option" where
  "error_constraint (DatabaseError e) = constraint e"
| "error_constraint _ = None"

subsection \<open>The validators as the route calls them\<close>

text \<open>
  The route passes \<open>request.body.<name>\<close>, which is \<open>undefined\<close> when the member is
  absent. Reading \<open>length\<close> or calling \<open>toLowerCase\<close> on \<open>undefined\<close> throws a TypeError;
  \<open>parseInt(undefined)\<close> is \<open>NaN\<close>.
\<close>

definition isValidEmail_rt ::
  "(jsstring \<Rightarrow> jsstring) \<Rightarrow> jsstring option \<Rightarrow> js_error + jsstring option" where
  "isValidEmail_rt toLowerCase email =
     (case email of None \<Rightarrow> Inl TypeError | Some e \<Rightarrow> Inr (isValidEmail toLowerCase e))"

definition isValidPassword_rt :: "validationFunctions \<Rightarrow> jsstring option \<Rightarrow> js_error + bool" where
  "isValidPassword_rt vf password =
     (case password of None \<Rightarrow> Inl TypeError | Some p \<Rightarrow> Inr (isValidPassword vf p))"

definition isValidPhone_rt :: "validationFunctions \<Rightarrow> jsstring option \<Rightarrow> js_error + bool" where
  "isValidPhone_rt vf phone =
     (case phone of
        None \<Rightarrow> if isStringProvided vf JUndefined then Inl TypeError else Inr False
      | Some p \<Rightarrow> Inr (isValidPhone vf p))"

definition isValidRole_rt :: "validationFunctions \<Rightarrow> jsstring option \<Rightarrow> js_error + bool" where
  "isValidRole_rt vf priority =
     (case priority of None \<Rightarrow> Inr False | Some r \<Rightarrow> Inr (isValidRole vf r))"

subsection \<open>Collaborators\<close>

text \<open>
  The module-level constant \<open>key\<close>, built once from the process environment when the
  module is loaded.
\<close>

record key =
  secret :: "jsstring option"

definition load_key :: "(string \<rightharpoonup> jsstring) \<Rightarrow> key" where
  "load_key process_env = \<lparr>secret = process_env ''JSON_WEB_TOKEN''\<rparr>"

record token_payload =
  role :: jsvalue
  id :: jsvalue

record statement =
  query_text :: string
  query_values :: "jsvalue list"

type_synonym row = "string \<rightharpoonup> jsvalue"

text \<open>
  What the route imports and does not define: the functions of \<open>core/utilities\<close>, the
  connection pool, \<open>jsonwebtoken\<close> and \<open>toLowerCase\<close>. A query either is rejected with an
  error, leaving the stored data as it was, or resolves with rows and the new stored data.
\<close>

record 'db environment =
  validationFunctions :: validationFunctions
  toLowerCase :: "jsstring \<Rightarrow> jsstring"
  generateSalt :: "nat \<Rightarrow> jsstring"
  generateHash :: "jsvalue \<Rightarrow> jsstring \<Rightarrow> jsstring"
  jwt_sign :: "token_payload \<Rightarrow> jsstring option \<Rightarrow> string \<Rightarrow> js_error + jsstring"
  pool_query :: "'db \<Rightarrow> statement \<Rightarrow> js_error + row list \<times> 'db"

datatype log_entry =
    Dir "string \<rightharpoonup> jsstring"
  | ErrorText string
  | ErrorObject js_error

text \<open>The stored data, the statements sent to the pool so far, and the console output.\<close>

record 'db world =
  db :: 'db
  issued :: "statement list"
  console :: "log_entry list"

definition query :: "'db environment \<Rightarrow> statement \<Rightarrow> 'db world \<Rightarrow> (js_error + row list) \<times> 'db world" where
  "query env stmt w =
     (case pool_query env (db w) stmt of
        Inl e \<Rightarrow> (Inl e, w\<lparr>issued := issued w @ [stmt]\<rparr>)
      | Inr (rows, db') \<Rightarrow> (Inr rows, w\<lparr>db := db', issued := issued w @ [stmt]\<rparr>))"

definition log :: "log_entry \<Rightarrow> 'db world \<Rightarrow> 'db world" where
  "log e w = w\<lparr>console := console w @ [e]\<rparr>"

subsection \<open>Middleware\<close>

text \<open>
  A middleware function calls \<open>next()\<close>, sends a response, or throws.
\<close>

datatype 'db step =
    Next request "'db world"
  | Sent response "'db world"
  | Threw js_error "'db world"

type_synonym 'db middleware = "request \<Rightarrow> 'db world \<Rightarrow> 'db step"


text \<open>\<^verbatim>\<open>response.status(st).send({ message: msg })\<close> sends this response.\<close>

definition reject :: "nat \<Rightarrow> string \<Rightarrow> response" where
  "reject st msg = \<lparr>status = st, payload = Message msg\<rparr>"

definition emailMiddlewareCheck :: "'db environment \<Rightarrow> 'db middleware" where
  "emailMiddlewareCheck env req w =
     (case isValidEmail_rt (toLowerCase env) (body req ''email'') of
        Inl e \<Rightarrow> Threw e w
      | Inr (Some m) \<Rightarrow> Next req w
      | Inr None \<Rightarrow>
          Sent (reject 400 ''Invalid or missing email  - please refer to documentation'') w)"

definition requiredFieldsCheck :: "'db environment \<Rightarrow> 'db middleware" where
  "requiredFieldsCheck env req w =
     (if isStringProvided (validationFunctions env) (field req ''firstname'') \<and>
         isStringProvided (validationFunctions env) (field req ''lastname'') \<and>
         isStringProvided (validationFunctions env) (field req ''username'')
      then Next req w
      else Sent (reject 400 ''Missing required information'') w)"

definition phoneCheck :: "'db environment \<Rightarrow> 'db middleware" where
  "phoneCheck env req w =
     (case isValidPhone_rt (validationFunctions env) (body req ''phone'') of
        Inl e \<Rightarrow> Threw e w
      | Inr True \<Rightarrow> Next req w
      | Inr False \<Rightarrow>
          Sent (reject 400 ''Invalid or missing phone number - please refer to documentation'') w)"

definition passwordCheck :: "'db environment \<Rightarrow> 'db middleware" where
  "passwordCheck env req w =
     (case isValidPassword_rt (validationFunctions env) (body req ''password'') of
        Inl e \<Rightarrow> Threw e w
      | Inr True \<Rightarrow> Next req w
      | Inr False \<Rightarrow>
          Sent (reject 400 ''Invalid or missing password - please refer to documentation'') w)"

definition roleCheck :: "'db environment \<Rightarrow> 'db middleware" where
  "roleCheck env req w =
     (case isValidRole_rt (validationFunctions env) (body req ''role'') of
        Inl e \<Rightarrow> Threw e w
      | Inr True \<Rightarrow> Next req w
      | Inr False \<Rightarrow>
          Sent (reject 400 ''Invalid or missing role - please refer to documentation'') w)"

text \<open>The text \<open>theQuery\<close> of the Account insert, and the statement sent with its values.\<close>

definition theQuery_account :: string where
  "theQuery_account =
     ''INSERT INTO Account(firstname, lastname, username, email, phone, account_role) VALUES ($1, $2, $3, $4, $5, $6) RETURNING account_id''"

definition accountStatement :: "request \<Rightarrow> statement" where
  "accountStatement req =
     \<lparr>query_text = theQuery_account,
      query_values = [field req ''firstname'', field req ''lastname'', field req ''username'',
                      field req ''email'', field req ''phone'', field req ''role'']\<rparr>"

text \<open>The \<open>catch\<close> of the Account insert.\<close>

definition accountInsertCatch :: "js_error \<Rightarrow> 'db world \<Rightarrow> 'db step" where
  "accountInsertCatch error w =
     (if error_constraint error = Some (js ''account_username_key'')
      then Sent (reject 400 ''Username exists'') w
      else if error_constraint error = Some (js ''account_email_key'')
      then Sent (reject 400 ''Email exists'') w
      else Sent (reject 500 ''server error - contact support'')
             (log (ErrorObject error) (log (ErrorText ''DB Query error on register'') w)))"

text \<open>The object logged before the insert: \<^verbatim>\<open>{ ...request.body, password: '******' }\<close>.\<close>

definition loggedBody :: "request \<Rightarrow> (string \<rightharpoonup> jsstring)" where
  "loggedBody req = (body req)(''password'' \<mapsto> js ''******'')"

text \<open>\<open>row.account_id\<close>\<close>

definition rowAccountId :: "row \<Rightarrow> jsvalue" where
  "rowAccountId r = (case r ''account_id'' of None \<Rightarrow> JUndefined | Some v \<Rightarrow> v)"

text \<open>
  The Account insert. Its \<open>then\<close> reads \<open>result.rows[0].account_id\<close>: with no row this
  throws a TypeError, which the \<open>catch\<close> receives.
\<close>

definition accountInsert :: "'db environment \<Rightarrow> 'db middleware" where
  "accountInsert env req w =
     (let w1 = log (Dir (loggedBody req)) w
      in case query env (accountStatement req) w1 of
           (Inr (r # _), w2) \<Rightarrow> Next (req\<lparr>req_id := rowAccountId r\<rparr>) w2
         | (Inr [], w2) \<Rightarrow> accountInsertCatch TypeError w2
         | (Inl error, w2) \<Rightarrow> accountInsertCatch error w2)"

text \<open>The text \<open>theQuery\<close> of the Credential insert, and the statement sent with its values.\<close>

definition theQuery_credential :: string where
  "theQuery_credential =
     ''INSERT INTO Account_Credential(account_id, salted_hash, salt) VALUES ($1, $2, $3)''"

definition credentialStatement :: "jsvalue \<Rightarrow> jsstring \<Rightarrow> jsstring \<Rightarrow> statement" where
  "credentialStatement account_id saltedHash salt =
     \<lparr>query_text = theQuery_credential,
      query_values = [account_id, JString saltedHash, JString salt]\<rparr>"

definition credentialInsertCatch :: "js_error \<Rightarrow> 'db world \<Rightarrow> 'db step" where
  "credentialInsertCatch error w =
     Sent (reject 500 ''server error - contact support'')
       (log (ErrorObject error) (log (ErrorText ''DB Query error on register'') w))"

text \<open>
  The Credential insert and the token. An error thrown by \<open>jwt.sign\<close> inside \<open>then\<close> is
  received by the same \<open>catch\<close> as a rejected query.
\<close>

definition credentialInsert :: "'db environment \<Rightarrow> key \<Rightarrow> 'db middleware" where
  "credentialInsert env k req w =
     (let salt = generateSalt env 32;
          saltedHash = generateHash env (field req ''password'') salt
      in case query env (credentialStatement (req_id req) saltedHash salt) w of
           (Inr _, w1) \<Rightarrow>
             (case jwt_sign env \<lparr>role = field req ''role'', id = req_id req\<rparr> (secret k) ''14 days'' of
                Inr accessToken \<Rightarrow>
                  Sent \<lparr>status = 201, payload = AccessToken accessToken (req_id req)\<rparr> w1
              | Inl error \<Rightarrow> credentialInsertCatch error w1)
         | (Inl error, w1) \<Rightarrow> credentialInsertCatch error w1)"

subsection \<open>The chain\<close>

datatype 'db outcome =
    Responded response "'db world"
  | Errored js_error "'db world"
  | Unhandled request "'db world"

text \<open>
  The router runs the functions in the order they were registered; each runs only if the
  one before it called \<open>next()\<close>.
\<close>

fun run :: "'db middleware list \<Rightarrow> request \<Rightarrow> 'db world \<Rightarrow> 'db outcome" where
  "run [] req w = Unhandled req w"
| "run (m # ms) req w =
     (case m req w of
        Next req' w' \<Rightarrow> run ms req' w'
      | Sent r w' \<Rightarrow> Responded r w'
      | Threw e w' \<Rightarrow> Errored e w')"


definition registerRoute :: "'db environment \<Rightarrow> key \<Rightarrow> request \<Rightarrow> 'db world \<Rightarrow> 'db outcome" where
  "registerRoute env k =
     run [emailMiddlewareCheck env, requiredFieldsCheck env, phoneCheck env, passwordCheck env,
          roleCheck env, accountInsert env, credentialInsert env k]"


section \<open>The specification's vocabulary\<close>

text \<open>
  The stages of the specification, in its order, with what each stage checks and the
  response it rejects with. The first stage that does not pass decides the outcome.
\<close>

datatype stage = EmailCheck | RequiredFieldsCheck | PhoneCheck | PasswordCheck | RoleCheck

definition validationStages :: "stage list" where
  "validationStages = [EmailCheck, RequiredFieldsCheck, PhoneCheck, PasswordCheck, RoleCheck]"

fun stageCheck :: "'db environment \<Rightarrow> request \<Rightarrow> stage \<Rightarrow> js_error + bool" where
  "stageCheck env req EmailCheck =
     (case isValidEmail_rt (toLowerCase env) (body req ''email'') of
        Inl e \<Rightarrow> Inl e | Inr m \<Rightarrow> Inr (m \<noteq> None))"
| "stageCheck env req RequiredFieldsCheck =
     Inr (isStringProvided (validationFunctions env) (field req ''firstname'') \<and>
          isStringProvided (validationFunctions env) (field req ''lastname'') \<and>
          isStringProvided (validationFunctions env) (field req ''username''))"
| "stageCheck env req PhoneCheck = isValidPhone_rt (validationFunctions env) (body req ''phone'')"
| "stageCheck env req PasswordCheck =
     isValidPassword_rt (validationFunctions env) (body req ''password'')"
| "stageCheck env req RoleCheck = isValidRole_rt (validationFunctions env) (body req ''role'')"

fun rejection :: "stage \<Rightarrow> response" where
  "rejection EmailCheck = reject 400 ''Invalid or missing email  - please refer to documentation''"
| "rejection RequiredFieldsCheck = reject 400 ''Missing required information''"
| "rejection PhoneCheck =
     reject 400 ''Invalid or missing phone number - please refer to documentation''"
| "rejection PasswordCheck =
     reject 400 ''Invalid or missing password - please refer to documentation''"
| "rejection RoleCheck = reject 400 ''Invalid or missing role - please refer to documentation''"

fun firstFailing :: "'db environment \<Rightarrow> request \<Rightarrow> 'db world \<Rightarrow> stage list \<Rightarrow> 'db outcome option" where
  "firstFailing env req w [] = None"
| "firstFailing env req w (s # ss) =
     (case stageCheck env req s of
        Inr True \<Rightarrow> firstFailing env req w ss
      | Inr False \<Rightarrow> Some (Responded (rejection s) w)
      | Inl e \<Rightarrow> Some (Errored e w))"

text \<open>The reason codes the specification lists.\<close>

definition reasonCodes :: "string set" where
  "reasonCodes = {''MissingFields'', ''InvalidPassword'', ''InvalidPhone'', ''InvalidEmail'',
                  ''InvalidRole'', ''UsernameTaken'', ''EmailTaken'', ''InternalError''}"

text \<open>The rejections the route sends.\<close>

definition rejections :: "response list" where
  "rejections =
     [reject 400 ''Invalid or missing email  - please refer to documentation'',
      reject 400 ''Missing required information'',
      reject 400 ''Invalid or missing phone number - please refer to documentation'',
      reject 400 ''Invalid or missing password - please refer to documentation'',
      reject 400 ''Invalid or missing role - please refer to documentation'',
      reject 400 ''Username exists'',
      reject 400 ''Email exists'',
      reject 500 ''server error - contact support'']"

section \<open>A concrete environment\<close>

text \<open>A non-empty run of decimal digits, such as \<open>3\<close> or \<open>42\<close>.\<close>

definition digitString :: "jsstring \<Rightarrow> bool" where
  "digitString s \<longleftrightarrow> s \<noteq> [] \<and> list_all isDecimalDigit s"

text \<open>
  Modelled from the spec: \<open>validationFunctions\<close> of \<open>core/utilities\<close>, which is not among
  the sources. \<open>isStringProvided\<close> follows \<open>isPresent\<close> (true iff the value is a non-empty
  string). The specification does not describe \<open>isNumberProvided\<close>: the instance accepts
  every number and, of the strings, the non-empty runs of decimal digits, in line with
  the role rule of the specification (an integer). The theorems hold for every
  \<open>validationFunctions\<close>; the instance serves where one of them is applied to a concrete
  input, and there it is asked only about numbers and about the string \<open>3\<close>.
\<close>

definition sampleValidation :: validationFunctions where
  "sampleValidation =
     \<lparr>isStringProvided = (\<lambda>v. case v of JString s \<Rightarrow> s \<noteq> [] | _ \<Rightarrow> False),
      isNumberProvided =
        (\<lambda>v. case v of JNumber n \<Rightarrow> True | JString s \<Rightarrow> digitString s | JUndefined \<Rightarrow> False)\<rparr>"

text \<open>Lower case for the letters \<open>A\<close> to \<open>Z\<close>; other code units are kept.\<close>

definition asciiLower :: "jsstring \<Rightarrow> jsstring" where
  "asciiLower s = map (\<lambda>c. if 0x41 \<le> c \<and> c \<le> 0x5A then c + 0x20 else c) s"

text \<open>
  A storage that keeps the statements it has executed and returns the number of the new
  account for an Account insert; \<open>fault\<close> says which statements it rejects, and with
  what error.
\<close>

definition samplePool ::
  "(statement \<Rightarrow> js_error option) \<Rightarrow> statement list \<Rightarrow> statement \<Rightarrow> js_error + row list \<times> statement list" where
  "samplePool fault stored stmt =
     (case fault stmt of
        Some e \<Rightarrow> Inl e
      | None \<Rightarrow>
          Inr (if query_text stmt = theQuery_account
               then [[''account_id'' \<mapsto>
                       JNumber (Num (1 + int (length
                         (filter (\<lambda>s. query_text s = theQuery_account) stored))))]]
               else [],
               stored @ [stmt]))"

definition uniqueViolation :: "string \<Rightarrow> js_error" where
  "uniqueViolation name =
     DatabaseError \<lparr>code = ''23505'', constraint = Some (js name), detail = ''Key already exists.''\<rparr>"

definition connectionLost :: js_error where
  "connectionLost = OtherError ''Connection terminated unexpectedly''"

text \<open>The fault of a storage that executes the Account insert and rejects the Credential insert.\<close>

definition credentialFault :: "statement \<Rightarrow> js_error option" where
  "credentialFault stmt =
     (if query_text stmt = theQuery_credential then Some connectionLost else None)"

text \<open>A signer that refuses an absent key.\<close>

definition sampleSign :: "token_payload \<Rightarrow> jsstring option \<Rightarrow> string \<Rightarrow> js_error + jsstring" where
  "sampleSign p k expiresIn =
     (case k of
        None \<Rightarrow> Inl (OtherError ''secretOrPrivateKey must have a value'')
      | Some s \<Rightarrow> Inr (js ''header.payload.signature''))"

definition sampleEnv :: "(statement \<Rightarrow> js_error option) \<Rightarrow> statement list environment" where
  "sampleEnv fault =
     \<lparr>validationFunctions = sampleValidation,
      toLowerCase = asciiLower,
      generateSalt = (\<lambda>n. js ''5a17''),
      generateHash = (\<lambda>p salt. js ''hash''),
      jwt_sign = sampleSign,
      pool_query = samplePool fault\<rparr>"

definition sampleKey :: key where
  "sampleKey = load_key [''JSON_WEB_TOKEN'' \<mapsto> js ''s3cret'']"

definition sampleWorld :: "statement list world" where
  "sampleWorld = \<lparr>db = [], issued = [], console = []\<rparr>"

definition sampleRequest :: request where
  "sampleRequest =
     \<lparr>body = [''firstname'' \<mapsto> js ''Ada'', ''lastname'' \<mapsto> js ''Lovelace'',
              ''username'' \<mapsto> js ''ada'', ''email'' \<mapsto> js ''Ada@Example.com'',
              ''phone'' \<mapsto> js ''2065550100'', ''password'' \<mapsto> js ''992!aaaaaaaaaaa'',
              ''role'' \<mapsto> js ''3''],
      req_id = JUndefined\<rparr>"

text \<open>The same request with an email and a password that both fail validation.\<close>

definition rejectedRequest :: request where
  "rejectedRequest =
     sampleRequest\<lparr>body := (body sampleRequest)(''email'' \<mapsto> js ''nobody'',
                                                 ''password'' \<mapsto> js ''hunter2'')\<rparr>"


text \<open>The sample request with its members \<open>email\<close> or \<open>password\<close> absent.\<close>

definition noEmailRequest :: request where
  "noEmailRequest = sampleRequest\<lparr>body := (body sampleRequest)(''email'' := None)\<rparr>"

definition noPasswordRequest :: request where
  "noPasswordRequest = sampleRequest\<lparr>body := (body sampleRequest)(''password'' := None)\<rparr>"

section \<open>Auxiliary notions\<close>

text \<open>Every response the middleware sends satisfies \<open>P\<close>.\<close>

definition sendsOnly :: "(response \<Rightarrow> bool) \<Rightarrow> 'db middleware \<Rightarrow> bool" where
  "sendsOnly P m \<longleftrightarrow> (\<forall>req w r w'. m req w = Sent r w' \<longrightarrow> P r)"

text \<open>A rejection of the route, or its success response.\<close>

definition routeResponse :: "response \<Rightarrow> bool" where
  "routeResponse r \<longleftrightarrow>
     r \<in> set rejections \<or> (\<exists>accessToken i. r = \<lparr>status = 201, payload = AccessToken accessToken i\<rparr>)"

section \<open>Properties of \<open>parseInt\<close> on the strings the password loop sees\<close>

lemma digit_not_ws: "isDecimalDigit c \<Longrightarrow> \<not> isWhiteSpace c"
  unfolding isDecimalDigit_def isWhiteSpace_def by (auto simp: word_le_nat_alt)

lemma digit_not_sign: "isDecimalDigit c \<Longrightarrow> c \<noteq> 0x2B \<and> c \<noteq> 0x2D"
  unfolding isDecimalDigit_def by auto

lemma digit_not_special: "isDecimalDigit c \<Longrightarrow> \<not> isSpecialChar c"
  unfolding isDecimalDigit_def isSpecialChar_def by auto

lemma radixDigit_10:
  "radixDigit 10 c = (if isDecimalDigit c then Some (unat c - 48) else None)"
  unfolding radixDigit_def isDecimalDigit_def Let_def
  by (simp add: word_le_nat_alt) arith

lemma digitValue_range: "isDecimalDigit c \<Longrightarrow> 0 \<le> digitValue c \<and> digitValue c \<le> 9"
  by (simp add: digitValue_def isDecimalDigit_def word_le_def)

lemma digitValue_nondigit: "\<not> isDecimalDigit c \<Longrightarrow> digitValue c = 0"
  by (simp add: digitValue_def)

lemma digitValue_unat: "isDecimalDigit c \<Longrightarrow> int (unat c - 48) = digitValue c"
  by (simp add: digitValue_def isDecimalDigit_def word_le_nat_alt)

lemma parseInt_ws: "isWhiteSpace c \<Longrightarrow> parseInt [c] = NaN"
  by (simp add: parseInt_def)

lemma parseInt_sign: "c = 0x2B \<or> c = 0x2D \<Longrightarrow> parseInt [c] = NaN"
  by (auto simp add: parseInt_def isWhiteSpace_def)

lemma parseInt_other:
  "\<not> isWhiteSpace c \<Longrightarrow> c \<noteq> 0x2B \<Longrightarrow> c \<noteq> 0x2D \<Longrightarrow>
   parseInt [c] = (if isDecimalDigit c then Num (int (unat c - 48)) else NaN)"
  by (simp add: parseInt_def radixDigit_10 radixValue_def)

lemma parseInt_single: "parseInt [c] = (if isDecimalDigit c then Num (digitValue c) else NaN)"
proof (cases "isWhiteSpace c \<or> c = 0x2B \<or> c = 0x2D")
  case True
  then have "parseInt [c] = NaN"
    using parseInt_ws parseInt_sign by blast
  moreover have "\<not> isDecimalDigit c"
    using True digit_not_ws digit_not_sign by blast
  ultimately show ?thesis by simp
next
  case False
  then have "parseInt [c] = (if isDecimalDigit c then Num (int (unat c - 48)) else NaN)"
    using parseInt_other by blast
  then show ?thesis
    using digitValue_unat by simp
qed

lemma high_surrogate_plain:
  assumes "isHighSurrogate c"
  shows "\<not> isDecimalDigit c" "\<not> isSpecialChar c" "\<not> isWhiteSpace c"
    "c \<noteq> 0x2B" "c \<noteq> 0x2D" "c \<noteq> 0x30"
  using assms
  unfolding isHighSurrogate_def isDecimalDigit_def isSpecialChar_def isWhiteSpace_def
  by (auto simp: word_le_nat_alt)

lemma low_surrogate_plain:
  assumes "isLowSurrogate c"
  shows "\<not> isDecimalDigit c" "\<not> isSpecialChar c"
  using assms unfolding isLowSurrogate_def isDecimalDigit_def isSpecialChar_def
  by (auto simp: word_le_nat_alt)

lemma parseInt_pair: "isHighSurrogate c \<Longrightarrow> parseInt [c, d] = NaN"
  using high_surrogate_plain [of c]
  by (simp add: parseInt_def radixDigit_10)

section \<open>The password loop\<close>

text \<open>
  One step on a one-unit string. A digit other than \<open>0\<close> is always counted; whether the
  digit \<open>0\<close> sets \<open>isNum\<close> is up to \<open>isNumberProvided\<close>, and the sum is the same either way.
\<close>

lemma passwordLoop_single:
  assumes "\<forall>d\<in>{1..9}. isNumberProvided vf (JNumber (Num d))"
  shows "\<exists>n'. passwordLoop vf ([c] # rest) (Num s, n, h) =
               passwordLoop vf rest (Num (s + digitValue c), n', h \<or> isSpecialChar c) \<and>
              (n \<longrightarrow> n') \<and> (isDecimalDigit c \<and> digitValue c \<noteq> 0 \<longrightarrow> n') \<and>
              (n' \<longrightarrow> n \<or> isDecimalDigit c)"
proof (cases "isDecimalDigit c")
  case False
  then have "passwordLoop vf ([c] # rest) (Num s, n, h) =
             passwordLoop vf rest (Num (s + digitValue c), n, h \<or> isSpecialChar c)"
    by (simp add: parseInt_single testSpecial_def digitValue_nondigit)
  with False show ?thesis by blast
next
  case True
  note digit = this
  show ?thesis
  proof (cases "isNumberProvided vf (JNumber (Num (digitValue c)))")
    case True
    with digit have "passwordLoop vf ([c] # rest) (Num s, n, h) =
                     passwordLoop vf rest (Num (s + digitValue c), True, h \<or> isSpecialChar c)"
      by (simp add: parseInt_single digit_not_special add.commute)
    with digit show ?thesis by blast
  next
    case False
    have "digitValue c = 0"
    proof (rule ccontr)
      assume "digitValue c \<noteq> 0"
      then have "digitValue c \<in> {1..9}"
        using digitValue_range [OF digit] by simp
      with assms False show False by blast
    qed
    with digit False
    have "passwordLoop vf ([c] # rest) (Num s, n, h) =
          passwordLoop vf rest (Num (s + digitValue c), n, h \<or> isSpecialChar c)"
      by (simp add: parseInt_single digit_not_special testSpecial_def)
    with \<open>digitValue c = 0\<close> show ?thesis by blast
  qed
qed

lemma passwordLoop_pair:
  assumes "isHighSurrogate c"
  shows "passwordLoop vf ([c, d] # rest) (s, n, h) = passwordLoop vf rest (s, n, h)"
  using assms high_surrogate_plain(2) [of c]
  by (simp add: parseInt_pair testSpecial_def)

lemma passwordLoop_codePoints:
  assumes "\<forall>d\<in>{1..9}. isNumberProvided vf (JNumber (Num d))"
  shows "\<exists>n'. passwordLoop vf (codePoints p) (Num s, n, h) =
               (Num (s + (\<Sum>c\<leftarrow>p. digitValue c)), n', h \<or> (\<exists>c\<in>set p. isSpecialChar c)) \<and>
              (n \<longrightarrow> n') \<and> ((\<exists>c\<in>set p. isDecimalDigit c \<and> digitValue c \<noteq> 0) \<longrightarrow> n') \<and>
              (n' \<longrightarrow> n \<or> (\<exists>c\<in>set p. isDecimalDigit c))"
proof (induction p arbitrary: s n h rule: codePoints.induct)
  case 1
  show ?case by simp
next
  case (2 c)
  obtain n' where
    "passwordLoop vf ([c] # []) (Num s, n, h) =
       passwordLoop vf [] (Num (s + digitValue c), n', h \<or> isSpecialChar c)"
    "n \<longrightarrow> n'" "isDecimalDigit c \<and> digitValue c \<noteq> 0 \<longrightarrow> n'" "n' \<longrightarrow> n \<or> isDecimalDigit c"
    using passwordLoop_single [OF assms, of c "[]" s n h] by blast
  then show ?case by auto
next
  case (3 c d cs)
  show ?case
  proof (cases "isHighSurrogate c \<and> isLowSurrogate d")
    case True
    then have cp: "codePoints (c # d # cs) = [c, d] # codePoints cs"
      by simp
    have zero: "digitValue c = 0" "digitValue d = 0"
      using True high_surrogate_plain(1) low_surrogate_plain(1) digitValue_nondigit by blast+
    have plain: "\<not> isDecimalDigit c" "\<not> isDecimalDigit d" "\<not> isSpecialChar c" "\<not> isSpecialChar d"
      using True high_surrogate_plain low_surrogate_plain by blast+
    have step: "passwordLoop vf ([c, d] # codePoints cs) (Num s, n, h) =
                passwordLoop vf (codePoints cs) (Num s, n, h)"
      using True by (simp only: passwordLoop_pair)
    from "3.IH"(1) [OF True, of s n h] obtain n' where
      "passwordLoop vf (codePoints cs) (Num s, n, h) =
         (Num (s + (\<Sum>c\<leftarrow>cs. digitValue c)), n', h \<or> (\<exists>c\<in>set cs. isSpecialChar c))"
      "n \<longrightarrow> n'" "(\<exists>c\<in>set cs. isDecimalDigit c \<and> digitValue c \<noteq> 0) \<longrightarrow> n'"
      "n' \<longrightarrow> n \<or> (\<exists>c\<in>set cs. isDecimalDigit c)"
      by blast
    then show ?thesis
      unfolding cp step using zero plain by auto
  next
    case False
    then have cp: "codePoints (c # d # cs) = [c] # codePoints (d # cs)"
      by auto
    obtain n1 where first:
      "passwordLoop vf ([c] # codePoints (d # cs)) (Num s, n, h) =
         passwordLoop vf (codePoints (d # cs)) (Num (s + digitValue c), n1, h \<or> isSpecialChar c)"
      "n \<longrightarrow> n1" "isDecimalDigit c \<and> digitValue c \<noteq> 0 \<longrightarrow> n1" "n1 \<longrightarrow> n \<or> isDecimalDigit c"
      using passwordLoop_single [OF assms, of c "codePoints (d # cs)" s n h] by blast
    from "3.IH"(2) [OF False, of "s + digitValue c" n1 "h \<or> isSpecialChar c"] obtain n' where rest:
      "passwordLoop vf (codePoints (d # cs)) (Num (s + digitValue c), n1, h \<or> isSpecialChar c) =
         (Num (s + digitValue c + (\<Sum>c\<leftarrow>d # cs. digitValue c)), n',
          (h \<or> isSpecialChar c) \<or> (\<exists>c\<in>set (d # cs). isSpecialChar c))"
      "n1 \<longrightarrow> n'" "(\<exists>c\<in>set (d # cs). isDecimalDigit c \<and> digitValue c \<noteq> 0) \<longrightarrow> n'"
      "n' \<longrightarrow> n1 \<or> (\<exists>c\<in>set (d # cs). isDecimalDigit c)"
      by blast
    have "passwordLoop vf (codePoints (c # d # cs)) (Num s, n, h) =
            (Num (s + (\<Sum>c\<leftarrow>c # d # cs. digitValue c)), n',
             h \<or> (\<exists>c\<in>set (c # d # cs). isSpecialChar c))"
      unfolding cp first(1) rest(1) by (simp add: add.assoc)
    moreover have "n \<longrightarrow> n'"
      using first(2) rest(2) by blast
    moreover have "(\<exists>c\<in>set (c # d # cs). isDecimalDigit c \<and> digitValue c \<noteq> 0) \<longrightarrow> n'"
      using first(3) rest(2,3) by auto
    moreover have "n' \<longrightarrow> n \<or> (\<exists>c\<in>set (c # d # cs). isDecimalDigit c)"
      using first(4) rest(4) by auto
    ultimately show ?thesis by blast
  qed
qed

lemma digit_sum_nonzero:
  "(\<Sum>c\<leftarrow>p. digitValue c) \<noteq> 0 \<Longrightarrow> \<exists>c\<in>set p. isDecimalDigit c \<and> digitValue c \<noteq> 0"
proof (induction p)
  case Nil
  then show ?case by simp
next
  case (Cons a p)
  then show ?case
    using digitValue_nondigit [of a] by (cases "digitValue a = 0") auto
qed

lemma isValidPassword_digits:
  assumes "\<forall>d\<in>{1..9}. isNumberProvided vf (JNumber (Num d))"
  shows "isValidPassword vf p \<longleftrightarrow>
           15 \<le> length p \<and> (\<exists>c\<in>set p. isSpecialChar c) \<and> (\<exists>c\<in>set p. isDecimalDigit c) \<and>
           (\<Sum>c\<leftarrow>p. digitValue c) = 20"
proof -
  obtain n' where loop:
    "passwordLoop vf (codePoints p) (Num 0, False, False) =
       (Num (0 + (\<Sum>c\<leftarrow>p. digitValue c)), n', False \<or> (\<exists>c\<in>set p. isSpecialChar c))"
    "(\<exists>c\<in>set p. isDecimalDigit c \<and> digitValue c \<noteq> 0) \<longrightarrow> n'"
    "n' \<longrightarrow> False \<or> (\<exists>c\<in>set p. isDecimalDigit c)"
    using passwordLoop_codePoints [OF assms, of p 0 False False] by blast
  have "(\<Sum>c\<leftarrow>p. digitValue c) = 20 \<Longrightarrow> n'"
    using loop(2) digit_sum_nonzero [of p] by auto
  then show ?thesis
    unfolding isValidPassword_def loop(1) using loop(3) by auto
qed

text \<open>
  C1. For every password \<open>p\<close>, \<open>isValidPassword(p)\<close> is true exactly when \<open>p\<close> has at least
  15 code units, contains a character of the special-character set, contains a digit,
  and the values of its digit characters, each occurrence counted, sum to exactly 20;
  every other character adds nothing to the sum. The helper \<open>isNumberProvided\<close> of
  \<open>core/utilities\<close> is a parameter, required to accept the numbers 1 to 9.
\<close>

theorem isValidPassword_iff:
  assumes "\<forall>d\<in>{1..9}. isNumberProvided vf (JNumber (Num d))"
  shows "isValidPassword vf p \<longleftrightarrow>
           15 \<le> length p \<and> (\<exists>c\<in>set p. isSpecialChar c) \<and> (\<exists>c\<in>set p. isDecimalDigit c) \<and>
           (\<Sum>c\<leftarrow>p. digitValue c) = 20"
  using isValidPassword_digits [OF assms] .

theorem isValidPassword_iff_witness:
  "list_all (\<lambda>d. isNumberProvided sampleValidation (JNumber (Num d))) [1, 2, 3, 4, 5, 6, 7, 8, 9] \<and>
   isValidPassword sampleValidation (js ''992!aaaaaaaaaaa'') \<and>
   \<not> isValidPassword sampleValidation (js ''password12345!!'')"
proof -
  have h: "\<forall>d\<in>{1..9}. isNumberProvided sampleValidation (JNumber (Num d))"
    by (simp add: sampleValidation_def)
  have "isValidPassword sampleValidation (js ''992!aaaaaaaaaaa'')"
    unfolding isValidPassword_iff [OF h]
    by (simp add: js_def isSpecialChar_def isDecimalDigit_def digitValue_def)
  moreover have "\<not> isValidPassword sampleValidation (js ''password12345!!'')"
    unfolding isValidPassword_iff [OF h]
    by (simp add: js_def isSpecialChar_def isDecimalDigit_def digitValue_def)
  ultimately show ?thesis by (simp add: sampleValidation_def)
qed

section \<open>The order of the validation stages\<close>

lemma emailMiddlewareCheck_stage:
  "emailMiddlewareCheck env req w =
     (case stageCheck env req EmailCheck of
        Inr True \<Rightarrow> Next req w
      | Inr False \<Rightarrow> Sent (rejection EmailCheck) w
      | Inl e \<Rightarrow> Threw e w)"
  by (simp add: emailMiddlewareCheck_def split: sum.splits option.splits)

lemma requiredFieldsCheck_stage:
  "requiredFieldsCheck env req w =
     (case stageCheck env req RequiredFieldsCheck of
        Inr True \<Rightarrow> Next req w
      | Inr False \<Rightarrow> Sent (rejection RequiredFieldsCheck) w
      | Inl e \<Rightarrow> Threw e w)"
  by (auto simp: requiredFieldsCheck_def)

lemma phoneCheck_stage:
  "phoneCheck env req w =
     (case stageCheck env req PhoneCheck of
        Inr True \<Rightarrow> Next req w
      | Inr False \<Rightarrow> Sent (rejection PhoneCheck) w
      | Inl e \<Rightarrow> Threw e w)"
  by (simp add: phoneCheck_def split: sum.splits bool.splits)

lemma passwordCheck_stage:
  "passwordCheck env req w =
     (case stageCheck env req PasswordCheck of
        Inr True \<Rightarrow> Next req w
      | Inr False \<Rightarrow> Sent (rejection PasswordCheck) w
      | Inl e \<Rightarrow> Threw e w)"
  by (simp add: passwordCheck_def split: sum.splits bool.splits)

lemma roleCheck_stage:
  "roleCheck env req w =
     (case stageCheck env req RoleCheck of
        Inr True \<Rightarrow> Next req w
      | Inr False \<Rightarrow> Sent (rejection RoleCheck) w
      | Inl e \<Rightarrow> Threw e w)"
  by (simp add: roleCheck_def split: sum.splits bool.splits)

lemma run_stage:
  assumes "\<And>req w. m req w =
     (case stageCheck env req s of
        Inr True \<Rightarrow> Next req w
      | Inr False \<Rightarrow> Sent (rejection s) w
      | Inl e \<Rightarrow> Threw e w)"
  shows "run (m # ms) req w =
     (case stageCheck env req s of
        Inr True \<Rightarrow> run ms req w
      | Inr False \<Rightarrow> Responded (rejection s) w
      | Inl e \<Rightarrow> Errored e w)"
  by (simp add: assms split: sum.splits bool.splits)

lemma firstFailing_Cons:
  "(case firstFailing env req w (s # ss) of Some out \<Rightarrow> out | None \<Rightarrow> rest) =
   (case stageCheck env req s of
      Inr True \<Rightarrow> (case firstFailing env req w ss of Some out \<Rightarrow> out | None \<Rightarrow> rest)
    | Inr False \<Rightarrow> Responded (rejection s) w
    | Inl e \<Rightarrow> Errored e w)"
  by (simp split: sum.splits bool.splits)

lemma firstFailing_Nil:
  "(case firstFailing env req w [] of Some out \<Rightarrow> out | None \<Rightarrow> rest) = rest"
  by simp

lemma registerRoute_firstFailing:
  "registerRoute env k req w =
     (case firstFailing env req w validationStages of
        Some out \<Rightarrow> out
      | None \<Rightarrow> run [accountInsert env, credentialInsert env k] req w)"
  unfolding registerRoute_def validationStages_def
  by (simp only: firstFailing_Cons firstFailing_Nil
      run_stage [of "emailMiddlewareCheck env", OF emailMiddlewareCheck_stage]
      run_stage [of "requiredFieldsCheck env", OF requiredFieldsCheck_stage]
      run_stage [of "phoneCheck env", OF phoneCheck_stage]
      run_stage [of "passwordCheck env", OF passwordCheck_stage]
      run_stage [of "roleCheck env", OF roleCheck_stage])

lemma rejection_email_not_password: "rejection EmailCheck \<noteq> rejection PasswordCheck"
  by (simp add: reject_def)

text \<open>
  C2. The validation stages run in the order EmailCheck, RequiredFieldsCheck, PhoneCheck,
  PasswordCheck, RoleCheck, and the first stage that does not pass decides the outcome:
  the route answers as \<open>firstFailing\<close> over that list does, and goes on to the inserts
  only when every stage passes. In particular a request that fails both EmailCheck and
  PasswordCheck gets the email rejection, never the password rejection.
\<close>

theorem register_stage_order:
  "registerRoute env k req w =
     (case firstFailing env req w
        [EmailCheck, RequiredFieldsCheck, PhoneCheck, PasswordCheck, RoleCheck] of
        Some out \<Rightarrow> out
      | None \<Rightarrow> run [accountInsert env, credentialInsert env k] req w) \<and>
   (stageCheck env req EmailCheck = Inr False \<and> stageCheck env req PasswordCheck = Inr False \<longrightarrow>
      registerRoute env k req w = Responded (rejection EmailCheck) w \<and>
      registerRoute env k req w \<noteq> Responded (rejection PasswordCheck) w)"
proof -
  have first: "registerRoute env k req w =
     (case firstFailing env req w
        [EmailCheck, RequiredFieldsCheck, PhoneCheck, PasswordCheck, RoleCheck] of
        Some out \<Rightarrow> out
      | None \<Rightarrow> run [accountInsert env, credentialInsert env k] req w)"
    using registerRoute_firstFailing [of env k req w] by (simp only: validationStages_def)
  have "registerRoute env k req w = Responded (rejection EmailCheck) w"
    if "stageCheck env req EmailCheck = Inr False"
    unfolding first using that by simp
  then show ?thesis
    using first rejection_email_not_password by auto
qed

lemmas regex_defs =
  emailPattern_def localPart_def domainPart_def octet_def Plus_def Opt_def Lit_def
  atomChar_def labelChar_def letterChar_def anyChar_def isWhiteSpace_def isDecimalDigit_def

lemmas sample_defs =
  sampleEnv_def sampleValidation_def asciiLower_def samplePool_def sampleSign_def
  sampleKey_def sampleWorld_def sampleRequest_def load_key_def js_def field_def

theorem register_stage_order_witness:
  "stageCheck (sampleEnv (\<lambda>s. None)) rejectedRequest EmailCheck = Inr False \<and>
   stageCheck (sampleEnv (\<lambda>s. None)) rejectedRequest PasswordCheck = Inr False \<and>
   registerRoute (sampleEnv (\<lambda>s. None)) sampleKey rejectedRequest sampleWorld =
     Responded (reject 400 ''Invalid or missing email  - please refer to documentation'')
       sampleWorld"
proof -
  have e: "stageCheck (sampleEnv (\<lambda>s. None)) rejectedRequest EmailCheck = Inr False"
    by (simp add: rejectedRequest_def sample_defs isValidEmail_rt_def isValidEmail_def regex_defs)
  have p: "stageCheck (sampleEnv (\<lambda>s. None)) rejectedRequest PasswordCheck = Inr False"
    by (simp add: rejectedRequest_def sample_defs isValidPassword_rt_def isValidPassword_def)
  show ?thesis
    using register_stage_order [of "sampleEnv (\<lambda>s. None)" sampleKey rejectedRequest sampleWorld]
      e p
    by simp
qed

section \<open>The responses the route sends\<close>

lemma run_sendsOnly:
  assumes "list_all (sendsOnly P) ms" and "run ms req w = Responded r w'"
  shows "P r"
  using assms
proof (induction ms arbitrary: req w)
  case Nil
  then show ?case by simp
next
  case (Cons m ms)
  show ?case
  proof (cases "m req w")
    case (Next req1 w1)
    with Cons.prems have "run ms req1 w1 = Responded r w'" by simp
    moreover from Cons.prems have "list_all (sendsOnly P) ms" by simp
    ultimately show ?thesis by (rule Cons.IH [rotated])
  next
    case (Sent r1 w1)
    with Cons.prems have "r1 = r" by simp
    moreover from Cons.prems have "sendsOnly P m" by simp
    ultimately show ?thesis using Sent unfolding sendsOnly_def by blast
  next
    case (Threw e w1)
    with Cons.prems show ?thesis by simp
  qed
qed

lemma rejection_routeResponse: "routeResponse (rejection s)"
  by (cases s) (simp_all add: routeResponse_def rejections_def)

lemma stage_sendsOnly:
  assumes "\<And>req w. m req w =
     (case stageCheck env req s of
        Inr True \<Rightarrow> Next req w
      | Inr False \<Rightarrow> Sent (rejection s) w
      | Inl e \<Rightarrow> Threw e w)"
  shows "sendsOnly routeResponse m"
  unfolding sendsOnly_def assms
  by (auto simp: rejection_routeResponse split: sum.splits bool.splits)

lemma accountInsertCatch_routeResponse:
  "accountInsertCatch error w = Sent r w' \<Longrightarrow> routeResponse r"
  by (auto simp: accountInsertCatch_def routeResponse_def rejections_def split: if_splits)

lemma credentialInsertCatch_routeResponse:
  "credentialInsertCatch error w = Sent r w' \<Longrightarrow> routeResponse r"
  by (auto simp: credentialInsertCatch_def routeResponse_def rejections_def)

lemma accountInsert_sendsOnly: "sendsOnly routeResponse (accountInsert env)"
  unfolding sendsOnly_def accountInsert_def Let_def
  by (auto split: prod.splits sum.splits list.splits dest: accountInsertCatch_routeResponse)

lemma credentialInsert_sendsOnly: "sendsOnly routeResponse (credentialInsert env k)"
  unfolding sendsOnly_def credentialInsert_def Let_def
  by (auto simp: routeResponse_def split: prod.splits sum.splits
      dest: credentialInsertCatch_routeResponse [unfolded routeResponse_def])

lemma registerRoute_routeResponse:
  assumes "registerRoute env k req w = Responded r w'"
  shows "routeResponse r"
proof (rule run_sendsOnly [OF _ assms [unfolded registerRoute_def]])
  show "list_all (sendsOnly routeResponse)
     [emailMiddlewareCheck env, requiredFieldsCheck env, phoneCheck env, passwordCheck env,
      roleCheck env, accountInsert env, credentialInsert env k]"
    by (simp add: accountInsert_sendsOnly credentialInsert_sendsOnly
        stage_sendsOnly [of "emailMiddlewareCheck env", OF emailMiddlewareCheck_stage]
        stage_sendsOnly [of "requiredFieldsCheck env", OF requiredFieldsCheck_stage]
        stage_sendsOnly [of "phoneCheck env", OF phoneCheck_stage]
        stage_sendsOnly [of "passwordCheck env", OF passwordCheck_stage]
        stage_sendsOnly [of "roleCheck env", OF roleCheck_stage])
qed

lemma rejectedRequest_outcome:
  "registerRoute (sampleEnv (\<lambda>s. None)) sampleKey rejectedRequest sampleWorld =
     Responded (reject 400 ''Invalid or missing email  - please refer to documentation'')
       sampleWorld"
proof -
  have "stageCheck (sampleEnv (\<lambda>s. None)) rejectedRequest EmailCheck = Inr False"
    by (simp add: rejectedRequest_def sample_defs isValidEmail_rt_def isValidEmail_def regex_defs)
  then show ?thesis
    unfolding registerRoute_firstFailing validationStages_def by simp
qed

text \<open>
  C3, as stated, fails: the request with the email \<open>nobody\<close> is rejected with a message
  that is none of the reason codes.
\<close>

theorem reason_codes_counterexample:
  "registerRoute (sampleEnv (\<lambda>s. None)) sampleKey rejectedRequest sampleWorld =
     Responded \<lparr>status = 400,
                payload = Message ''Invalid or missing email  - please refer to documentation''\<rparr>
       sampleWorld \<and>
   ''Invalid or missing email  - please refer to documentation'' \<notin> reasonCodes"
  using rejectedRequest_outcome by (simp add: reject_def reasonCodes_def)

text \<open>
  C3, amended. Every response the route sends is one of eight fixed rejections, each a
  status and a human-readable \<open>message\<close> (status 400 with one of seven messages, or
  status 500 with \<open>server error - contact support\<close>), or the success response with
  status 201.
\<close>

theorem register_responses:
  assumes "registerRoute env k req w = Responded r w'"
  shows "r \<in> set
           [reject 400 ''Invalid or missing email  - please refer to documentation'',
            reject 400 ''Missing required information'',
            reject 400 ''Invalid or missing phone number - please refer to documentation'',
            reject 400 ''Invalid or missing password - please refer to documentation'',
            reject 400 ''Invalid or missing role - please refer to documentation'',
            reject 400 ''Username exists'',
            reject 400 ''Email exists'',
            reject 500 ''server error - contact support''] \<or>
         (\<exists>accessToken i. r = \<lparr>status = 201, payload = AccessToken accessToken i\<rparr>)"
  using registerRoute_routeResponse [OF assms]
  unfolding routeResponse_def rejections_def .

theorem register_responses_witness:
  "status (reject 400 ''Invalid or missing email  - please refer to documentation'') = 400 \<and>
   (reject 400 ''Invalid or missing email  - please refer to documentation'' \<in> set rejections \<or>
    (\<exists>accessToken i. reject 400 ''Invalid or missing email  - please refer to documentation'' =
       \<lparr>status = 201, payload = AccessToken accessToken i\<rparr>))"
  using register_responses [OF rejectedRequest_outcome]
  by (simp add: rejections_def reject_def)

lemma theQuery_distinct: "theQuery_credential \<noteq> theQuery_account"
  by (simp add: theQuery_credential_def theQuery_account_def)

section \<open>The sample request\<close>

lemma sampleValidation_numbers: "\<forall>d\<in>{1..9}. isNumberProvided sampleValidation (JNumber (Num d))"
  by (simp add: sampleValidation_def)

lemma sample_password_valid: "isValidPassword sampleValidation (js ''992!aaaaaaaaaaa'')"
  unfolding isValidPassword_digits [OF sampleValidation_numbers]
  by (simp add: js_def isSpecialChar_def isDecimalDigit_def digitValue_def)

lemma sample_email_valid:
  "isValidEmail asciiLower (js ''Ada@Example.com'') = Some (js ''ada@example.com'')"
  by (simp add: isValidEmail_def asciiLower_def js_def regex_defs)

lemma sample_role_valid: "isValidRole sampleValidation (js ''3'')"
  by (simp add: isValidRole_def sampleValidation_def digitString_def js_def isDecimalDigit_def
      isWhiteSpace_def parseInt_def radixDigit_10 radixValue_def)

lemma sample_phone_valid: "isValidPhone sampleValidation (js ''2065550100'')"
  by (simp add: isValidPhone_def sampleValidation_def js_def)

lemma sample_names_provided:
  "isStringProvided sampleValidation (JString (js ''Ada''))"
  "isStringProvided sampleValidation (JString (js ''Lovelace''))"
  "isStringProvided sampleValidation (JString (js ''ada''))"
  by (simp_all add: sampleValidation_def js_def)

lemma sampleRequest_stage: "stageCheck (sampleEnv fault) sampleRequest s = Inr True"
proof (cases s)
  case EmailCheck
  then show ?thesis
    by (simp add: sampleEnv_def sampleRequest_def isValidEmail_rt_def sample_email_valid)
next
  case RequiredFieldsCheck
  then show ?thesis
    by (simp add: sampleEnv_def sampleRequest_def field_def sample_names_provided)
next
  case PhoneCheck
  then show ?thesis
    by (simp add: sampleEnv_def sampleRequest_def isValidPhone_rt_def sample_phone_valid)
next
  case PasswordCheck
  then show ?thesis
    by (simp add: sampleEnv_def sampleRequest_def isValidPassword_rt_def sample_password_valid)
next
  case RoleCheck
  then show ?thesis
    by (simp add: sampleEnv_def sampleRequest_def isValidRole_rt_def sample_role_valid)
qed

lemma sampleRequest_passes:
  "firstFailing (sampleEnv fault) sampleRequest w validationStages = None"
  unfolding validationStages_def by (simp add: sampleRequest_stage del: stageCheck.simps)

section \<open>The two inserts\<close>

lemma registerRoute_validated:
  assumes "firstFailing env req w validationStages = None"
  shows "registerRoute env k req w = run [accountInsert env, credentialInsert env k] req w"
  by (simp add: registerRoute_firstFailing assms)

lemma accountInsert_rejected:
  assumes "pool_query env (db w) (accountStatement req) = Inl error"
  shows "accountInsert env req w =
           accountInsertCatch error
             (w\<lparr>console := console w @ [Dir (loggedBody req)],
                issued := issued w @ [accountStatement req]\<rparr>)"
  using assms by (simp add: accountInsert_def query_def log_def)

lemma accountInsert_resolved:
  assumes "pool_query env (db w) (accountStatement req) = Inr (r # rs, db1)"
  shows "accountInsert env req w =
           Next (req\<lparr>req_id := rowAccountId r\<rparr>)
             (w\<lparr>console := console w @ [Dir (loggedBody req)], db := db1,
                issued := issued w @ [accountStatement req]\<rparr>)"
  using assms by (simp add: accountInsert_def query_def log_def)

lemma accountInsert_no_row:
  assumes "pool_query env (db w) (accountStatement req) = Inr ([], db1)"
  shows "accountInsert env req w =
           accountInsertCatch TypeError
             (w\<lparr>console := console w @ [Dir (loggedBody req)], db := db1,
                issued := issued w @ [accountStatement req]\<rparr>)"
  using assms by (simp add: accountInsert_def query_def log_def)

text \<open>The statement the Credential insert sends for a request.\<close>

lemma credentialInsert_rejected:
  assumes "pool_query env (db w)
             (credentialStatement (req_id req)
                (generateHash env (field req ''password'') (generateSalt env 32))
                (generateSalt env 32)) = Inl error"
  shows "credentialInsert env k req w =
           Sent (reject 500 ''server error - contact support'')
             (w\<lparr>issued := issued w @
                   [credentialStatement (req_id req)
                      (generateHash env (field req ''password'') (generateSalt env 32))
                      (generateSalt env 32)],
                console := console w @
                   [ErrorText ''DB Query error on register'', ErrorObject error]\<rparr>)"
  using assms
  by (simp add: credentialInsert_def credentialInsertCatch_def query_def log_def Let_def)

lemma credentialInsert_resolved:
  assumes "pool_query env (db w)
             (credentialStatement (req_id req)
                (generateHash env (field req ''password'') (generateSalt env 32))
                (generateSalt env 32)) = Inr (rows, db2)"
  shows "credentialInsert env k req w =
           (case jwt_sign env \<lparr>role = field req ''role'', id = req_id req\<rparr> (secret k) ''14 days'' of
              Inr accessToken \<Rightarrow>
                Sent \<lparr>status = 201, payload = AccessToken accessToken (req_id req)\<rparr>
                  (w\<lparr>db := db2, issued := issued w @
                   [credentialStatement (req_id req)
                      (generateHash env (field req ''password'') (generateSalt env 32))
                      (generateSalt env 32)]\<rparr>)
            | Inl error \<Rightarrow>
                Sent (reject 500 ''server error - contact support'')
                  (w\<lparr>db := db2, issued := issued w @
                   [credentialStatement (req_id req)
                      (generateHash env (field req ''password'') (generateSalt env 32))
                      (generateSalt env 32)],
                   console := console w @
                   [ErrorText ''DB Query error on register'', ErrorObject error]\<rparr>))"
  using assms
  by (simp add: credentialInsert_def credentialInsertCatch_def query_def log_def Let_def
      split: sum.splits)

text \<open>
  C4. In the AccountInsert stage, when the insert is rejected: the violated constraint
  \<open>account_username_key\<close> yields the rejection \<open>Username exists\<close>, \<open>account_email_key\<close>
  yields \<open>Email exists\<close>, and every other failure yields the same fixed status 500
  response, which carries nothing of the error. The stored data are unchanged.
\<close>

theorem account_insert_failure:
  assumes "firstFailing env req w validationStages = None"
    and "pool_query env (db w) (accountStatement req) = Inl error"
  shows "\<exists>w'. registerRoute env k req w =
           Responded
             (if error_constraint error = Some (js ''account_username_key'')
              then reject 400 ''Username exists''
              else if error_constraint error = Some (js ''account_email_key'')
              then reject 400 ''Email exists''
              else reject 500 ''server error - contact support'') w' \<and>
           db w' = db w"
  unfolding registerRoute_validated [OF assms(1)]
  by (simp add: accountInsert_rejected [OF assms(2)] accountInsertCatch_def log_def)

lemma sample_account_fault:
  "pool_query (sampleEnv (\<lambda>s. Some error)) (db sampleWorld) (accountStatement sampleRequest) =
     Inl error"
  by (simp add: sampleEnv_def samplePool_def)

theorem account_insert_failure_witness:
  "(\<exists>w'. registerRoute (sampleEnv (\<lambda>s. Some (uniqueViolation ''account_username_key'')))
            sampleKey sampleRequest sampleWorld = Responded (reject 400 ''Username exists'') w' \<and>
          db w' = []) \<and>
   (\<exists>w'. registerRoute (sampleEnv (\<lambda>s. Some (uniqueViolation ''account_email_key'')))
            sampleKey sampleRequest sampleWorld = Responded (reject 400 ''Email exists'') w' \<and>
          db w' = []) \<and>
   (\<exists>w'. registerRoute (sampleEnv (\<lambda>s. Some connectionLost))
            sampleKey sampleRequest sampleWorld =
              Responded (reject 500 ''server error - contact support'') w' \<and>
          db w' = [])"
  using account_insert_failure [OF sampleRequest_passes sample_account_fault,
      of "uniqueViolation ''account_username_key''" sampleKey]
    account_insert_failure [OF sampleRequest_passes sample_account_fault,
      of "uniqueViolation ''account_email_key''" sampleKey]
    account_insert_failure [OF sampleRequest_passes sample_account_fault,
      of connectionLost sampleKey]
  by (simp add: uniqueViolation_def connectionLost_def js_def sampleWorld_def)

section \<open>A failed Credential insert\<close>

lemma inserts_credential_rejected:
  assumes "pool_query env (db w) (accountStatement req) = Inr (r # rs, db1)"
    and "pool_query env db1
           (credentialStatement (rowAccountId r)
              (generateHash env (field req ''password'') (generateSalt env 32))
              (generateSalt env 32)) = Inl error"
  shows "run [accountInsert env, credentialInsert env k] req w =
           Responded (reject 500 ''server error - contact support'')
             (w\<lparr>db := db1,
                issued := issued w @
                  [accountStatement req,
                   credentialStatement (rowAccountId r)
                     (generateHash env (field req ''password'') (generateSalt env 32))
                     (generateSalt env 32)],
                console := console w @
                  [Dir (loggedBody req), ErrorText ''DB Query error on register'',
                   ErrorObject error]\<rparr>)"
proof -
  let ?req1 = "req\<lparr>req_id := rowAccountId r\<rparr>"
  let ?w1 = "w\<lparr>console := console w @ [Dir (loggedBody req)], db := db1,
                issued := issued w @ [accountStatement req]\<rparr>"
  have "pool_query env (db ?w1)
          (credentialStatement (req_id ?req1)
             (generateHash env (field ?req1 ''password'') (generateSalt env 32))
             (generateSalt env 32)) = Inl error"
    using assms(2) by (simp add: field_def)
  from credentialInsert_rejected [OF this, of k]
  show ?thesis
    by (simp add: accountInsert_resolved [OF assms(1)] field_def)
qed

text \<open>
  C5. When the Account insert has succeeded and the Credential insert is rejected, the
  route answers with the status 500 rejection, and the Account is not rolled back: the
  stored data are those the Account insert left, and the only statements the route has
  sent are the two inserts, with no deletion after them.
\<close>

theorem credential_failure_keeps_account:
  assumes "firstFailing env req w validationStages = None"
    and "pool_query env (db w) (accountStatement req) = Inr (r # rs, db1)"
    and "pool_query env db1
           (credentialStatement (rowAccountId r)
              (generateHash env (field req ''password'') (generateSalt env 32))
              (generateSalt env 32)) = Inl error"
  shows "\<exists>w'. registerRoute env k req w =
                Responded (reject 500 ''server error - contact support'') w' \<and>
              db w' = db1 \<and>
              issued w' = issued w @
                [accountStatement req,
                 credentialStatement (rowAccountId r)
                   (generateHash env (field req ''password'') (generateSalt env 32))
                   (generateSalt env 32)]"
  unfolding registerRoute_validated [OF assms(1)]
    inserts_credential_rejected [OF assms(2,3)]
  by simp

lemma sample_account_stored:
  "pool_query (sampleEnv credentialFault) (db sampleWorld) (accountStatement sampleRequest) =
     Inr ([[''account_id'' \<mapsto> JNumber (Num 1)]], [accountStatement sampleRequest])"
  by (simp add: sampleEnv_def samplePool_def sampleWorld_def credentialFault_def
      accountStatement_def theQuery_distinct [symmetric])

lemma sample_credential_rejected:
  "pool_query (sampleEnv credentialFault) [accountStatement sampleRequest]
     (credentialStatement (rowAccountId [''account_id'' \<mapsto> JNumber (Num 1)])
        (generateHash (sampleEnv credentialFault) (field sampleRequest ''password'')
           (generateSalt (sampleEnv credentialFault) 32))
        (generateSalt (sampleEnv credentialFault) 32)) = Inl connectionLost"
  by (simp add: sampleEnv_def samplePool_def credentialFault_def credentialStatement_def)

theorem credential_failure_keeps_account_witness:
  "\<exists>w'. registerRoute (sampleEnv credentialFault) sampleKey sampleRequest sampleWorld =
           Responded (reject 500 ''server error - contact support'') w' \<and>
         db w' = [accountStatement sampleRequest] \<and>
         map query_text (issued w') = [theQuery_account, theQuery_credential]"
  using credential_failure_keeps_account
    [OF sampleRequest_passes sample_account_stored sample_credential_rejected, of sampleKey]
  by (auto simp: sampleWorld_def accountStatement_def credentialStatement_def)

section \<open>Successful registration\<close>

lemma firstFailing_Some:
  assumes "firstFailing env req w ss = Some out"
  shows "(\<exists>s. out = Responded (rejection s) w) \<or> (\<exists>e. out = Errored e w)"
  using assms
  by (induction ss) (auto split: sum.splits bool.splits)

lemma firstFailing_None:
  assumes "firstFailing env req w ss = None" and "s \<in> set ss"
  shows "stageCheck env req s = Inr True"
  using assms
  by (induction ss) (auto split: sum.splits bool.splits)

lemma status_rejection: "status (rejection s) = 400"
  by (cases s) (simp_all add: reject_def)

lemma created_validated:
  assumes "registerRoute env k req w = Responded resp w'" and "status resp = 201"
  shows "firstFailing env req w validationStages = None"
proof (cases "firstFailing env req w validationStages")
  case None
  then show ?thesis .
next
  case (Some out)
  then have "registerRoute env k req w = out"
    by (simp add: registerRoute_firstFailing)
  with firstFailing_Some [OF Some] assms(1) obtain s where "resp = rejection s"
    by auto
  with assms(2) show ?thesis
    by (simp add: status_rejection)
qed

lemma accountInsertCatch_Sent:
  "\<exists>r w1. accountInsertCatch error w = Sent r w1 \<and> status r \<noteq> 201"
  by (simp add: accountInsertCatch_def reject_def)

lemma run_accountInsertCatch:
  assumes "accountInsert env req w = accountInsertCatch error w0"
    and "run (accountInsert env # ms) req w = Responded resp w'"
  shows "status resp \<noteq> 201"
proof -
  obtain r w1 where "accountInsertCatch error w0 = Sent r w1" "status r \<noteq> 201"
    using accountInsertCatch_Sent by blast
  with assms show ?thesis by simp
qed

lemma inserts_created:
  assumes "run [accountInsert env, credentialInsert env k] req w = Responded resp w'"
    and "status resp = 201"
  shows "\<exists>r rs db1 accessToken.
           pool_query env (db w) (accountStatement req) = Inr (r # rs, db1) \<and>
           jwt_sign env \<lparr>role = field req ''role'', id = rowAccountId r\<rparr> (secret k) ''14 days'' =
             Inr accessToken \<and>
           resp = \<lparr>status = 201, payload = AccessToken accessToken (rowAccountId r)\<rparr>"
proof (cases "pool_query env (db w) (accountStatement req)")
  case (Inl error)
  from run_accountInsertCatch [OF accountInsert_rejected [OF Inl] assms(1)] assms(2)
  show ?thesis by simp
next
  case (Inr res)
  obtain rows db1 where res: "res = (rows, db1)"
    by (cases res)
  show ?thesis
  proof (cases rows)
    case Nil
    with Inr res have q: "pool_query env (db w) (accountStatement req) = Inr ([], db1)"
      by simp
    from run_accountInsertCatch [OF accountInsert_no_row [OF q] assms(1)] assms(2)
    show ?thesis by simp
  next
    case (Cons r rs)
    with Inr res have q: "pool_query env (db w) (accountStatement req) = Inr (r # rs, db1)"
      by simp
    let ?req1 = "req\<lparr>req_id := rowAccountId r\<rparr>"
    let ?w1 = "w\<lparr>console := console w @ [Dir (loggedBody req)], db := db1,
                  issued := issued w @ [accountStatement req]\<rparr>"
    from assms(1) have sent: "credentialInsert env k ?req1 ?w1 = Sent resp w'"
      by (auto simp: accountInsert_resolved [OF q] split: step.splits)
    have f: "field ?req1 ''role'' = field req ''role''"
      by (simp add: field_def)
    show ?thesis
    proof (cases "pool_query env (db ?w1)
             (credentialStatement (req_id ?req1)
                (generateHash env (field ?req1 ''password'') (generateSalt env 32))
                (generateSalt env 32))")
      case (Inl error)
      from sent assms(2) show ?thesis
        unfolding credentialInsert_rejected [OF Inl] by (auto simp: reject_def)
    next
      case (Inr res2)
      obtain rows2 db2 where "res2 = (rows2, db2)"
        by (cases res2)
      with Inr have q2: "pool_query env (db ?w1)
             (credentialStatement (req_id ?req1)
                (generateHash env (field ?req1 ''password'') (generateSalt env 32))
                (generateSalt env 32)) = Inr (rows2, db2)"
        by simp
      from sent assms(2) q show ?thesis
        unfolding credentialInsert_resolved [OF q2] f
        by (auto simp: reject_def split: sum.splits)
    qed
  qed
qed

text \<open>
  C10. For every successful registration (a response with status 201), the token in the
  response is what \<open>jwt.sign\<close> returned for the payload \<open>{role, id}\<close>, where \<open>role\<close> is
  the role string as submitted (not a parsed number) and \<open>id\<close> is the \<open>account_id\<close> of
  the row the Account insert returned, signed with the key's secret and the option
  \<open>expiresIn: '14 days'\<close>; the response body is \<open>{accessToken, id}\<close> with that same id.
\<close>

theorem registration_success:
  assumes "registerRoute env k req w = Responded resp w'" and "status resp = 201"
  shows "\<exists>raw r rs db1 accessToken.
           body req ''role'' = Some raw \<and>
           pool_query env (db w) (accountStatement req) = Inr (r # rs, db1) \<and>
           jwt_sign env \<lparr>role = JString raw, id = rowAccountId r\<rparr> (secret k) ''14 days'' =
             Inr accessToken \<and>
           resp = \<lparr>status = 201, payload = AccessToken accessToken (rowAccountId r)\<rparr>"
proof -
  have valid: "firstFailing env req w validationStages = None"
    using created_validated [OF assms] .
  then have "stageCheck env req RoleCheck = Inr True"
    by (rule firstFailing_None) (simp add: validationStages_def)
  then obtain raw where raw: "body req ''role'' = Some raw"
    by (auto simp: isValidRole_rt_def split: option.splits)
  then have f: "field req ''role'' = JString raw"
    by (simp add: field_def)
  from assms(1) have "run [accountInsert env, credentialInsert env k] req w = Responded resp w'"
    by (simp add: registerRoute_validated [OF valid])
  from inserts_created [OF this assms(2)] raw show ?thesis
    unfolding f by blast
qed

lemma sample_created:
  "\<exists>w'. registerRoute (sampleEnv (\<lambda>s. None)) sampleKey sampleRequest sampleWorld =
     Responded \<lparr>status = 201,
                payload = AccessToken (js ''header.payload.signature'') (JNumber (Num 1))\<rparr> w'"
  unfolding registerRoute_validated [OF sampleRequest_passes]
  by (simp add: accountInsert_def credentialInsert_def query_def log_def Let_def
      sampleEnv_def samplePool_def sampleSign_def sampleKey_def load_key_def sampleWorld_def
      rowAccountId_def accountStatement_def credentialStatement_def theQuery_distinct)

theorem registration_success_witness:
  "\<exists>raw r rs db1 accessToken.
     body sampleRequest ''role'' = Some raw \<and>
     pool_query (sampleEnv (\<lambda>s. None)) (db sampleWorld) (accountStatement sampleRequest) =
       Inr (r # rs, db1) \<and>
     jwt_sign (sampleEnv (\<lambda>s. None)) \<lparr>role = JString raw, id = rowAccountId r\<rparr>
       (secret sampleKey) ''14 days'' = Inr accessToken \<and>
     \<lparr>status = 201, payload = AccessToken (js ''header.payload.signature'') (JNumber (Num 1))\<rparr> =
       \<lparr>status = 201, payload = AccessToken accessToken (rowAccountId r)\<rparr>"
proof -
  obtain w' where
    "registerRoute (sampleEnv (\<lambda>s. None)) sampleKey sampleRequest sampleWorld =
       Responded \<lparr>status = 201,
                  payload = AccessToken (js ''header.payload.signature'') (JNumber (Num 1))\<rparr> w'"
    using sample_created by blast
  from registration_success [OF this] show ?thesis
    by simp
qed

section \<open>The signing key\<close>

lemma inserts_sign_failed:
  assumes "pool_query env (db w) (accountStatement req) = Inr (r # rs, db1)"
    and "pool_query env db1
           (credentialStatement (rowAccountId r)
              (generateHash env (field req ''password'') (generateSalt env 32))
              (generateSalt env 32)) = Inr (rows2, db2)"
    and "jwt_sign env \<lparr>role = field req ''role'', id = rowAccountId r\<rparr> (secret k) ''14 days'' =
           Inl error"
  shows "run [accountInsert env, credentialInsert env k] req w =
           Responded (reject 500 ''server error - contact support'')
             (w\<lparr>db := db2,
                issued := issued w @
                  [accountStatement req,
                   credentialStatement (rowAccountId r)
                     (generateHash env (field req ''password'') (generateSalt env 32))
                     (generateSalt env 32)],
                console := console w @
                  [Dir (loggedBody req), ErrorText ''DB Query error on register'',
                   ErrorObject error]\<rparr>)"
proof -
  let ?req1 = "req\<lparr>req_id := rowAccountId r\<rparr>"
  let ?w1 = "w\<lparr>console := console w @ [Dir (loggedBody req)], db := db1,
                issued := issued w @ [accountStatement req]\<rparr>"
  have "pool_query env (db ?w1)
          (credentialStatement (req_id ?req1)
             (generateHash env (field ?req1 ''password'') (generateSalt env 32))
             (generateSalt env 32)) = Inr (rows2, db2)"
    using assms(2) by (simp add: field_def)
  from credentialInsert_resolved [OF this, of k] assms(3)
  show ?thesis
    by (simp add: accountInsert_resolved [OF assms(1)] field_def)
qed

lemma rejectedRequest_any_key:
  "registerRoute (sampleEnv fault) k rejectedRequest sampleWorld =
     Responded (reject 400 ''Invalid or missing email  - please refer to documentation'')
       sampleWorld"
proof -
  have "stageCheck (sampleEnv fault) rejectedRequest EmailCheck = Inr False"
    by (simp add: rejectedRequest_def sample_defs isValidEmail_rt_def isValidEmail_def regex_defs)
  then show ?thesis
    unfolding registerRoute_firstFailing validationStages_def by simp
qed

lemma sample_stored:
  "pool_query (sampleEnv (\<lambda>s. None)) (db sampleWorld) (accountStatement sampleRequest) =
     Inr ([[''account_id'' \<mapsto> JNumber (Num 1)]], [accountStatement sampleRequest])"
  by (simp add: sampleEnv_def samplePool_def sampleWorld_def accountStatement_def)

lemma sample_credential_stored:
  "pool_query (sampleEnv (\<lambda>s. None)) [accountStatement sampleRequest]
     (credentialStatement (rowAccountId [''account_id'' \<mapsto> JNumber (Num 1)])
        (generateHash (sampleEnv (\<lambda>s. None)) (field sampleRequest ''password'')
           (generateSalt (sampleEnv (\<lambda>s. None)) 32))
        (generateSalt (sampleEnv (\<lambda>s. None)) 32)) =
     Inr ([],
          [accountStatement sampleRequest,
           credentialStatement (JNumber (Num 1)) (js ''hash'') (js ''5a17'')])"
  by (simp add: sampleEnv_def samplePool_def rowAccountId_def credentialStatement_def
      theQuery_distinct)

lemma sample_sign_refuses:
  "jwt_sign (sampleEnv (\<lambda>s. None))
     \<lparr>role = field sampleRequest ''role'',
      id = rowAccountId [''account_id'' \<mapsto> JNumber (Num 1)]\<rparr>
     (secret (load_key Map.empty)) ''14 days'' =
     Inl (OtherError ''secretOrPrivateKey must have a value'')"
  by (simp add: sampleEnv_def sampleSign_def load_key_def)

text \<open>
  C7, as stated, fails. With no \<open>JSON_WEB_TOKEN\<close> in the process environment the module
  loads a key whose secret is \<open>undefined\<close>, and requests are served all the same: a
  request with a bad email gets its status 400 rejection, and a valid request, with a
  signer that refuses an absent key, gets the status 500 rejection after both rows have
  been stored.
\<close>

theorem missing_key_counterexample:
  "secret (load_key Map.empty) = None \<and>
   registerRoute (sampleEnv (\<lambda>s. None)) (load_key Map.empty) rejectedRequest sampleWorld =
     Responded (reject 400 ''Invalid or missing email  - please refer to documentation'')
       sampleWorld \<and>
   registerRoute (sampleEnv (\<lambda>s. None)) (load_key Map.empty) sampleRequest sampleWorld =
     Responded (reject 500 ''server error - contact support'')
       \<lparr>db = [accountStatement sampleRequest,
               credentialStatement (JNumber (Num 1)) (js ''hash'') (js ''5a17'')],
        issued = [accountStatement sampleRequest,
               credentialStatement (JNumber (Num 1)) (js ''hash'') (js ''5a17'')],
        console = [Dir (loggedBody sampleRequest), ErrorText ''DB Query error on register'',
                   ErrorObject (OtherError ''secretOrPrivateKey must have a value'')]\<rparr>"
proof -
  have "registerRoute (sampleEnv (\<lambda>s. None)) (load_key Map.empty) sampleRequest sampleWorld =
     Responded (reject 500 ''server error - contact support'')
       \<lparr>db = [accountStatement sampleRequest,
               credentialStatement (JNumber (Num 1)) (js ''hash'') (js ''5a17'')],
        issued = [accountStatement sampleRequest,
               credentialStatement (JNumber (Num 1)) (js ''hash'') (js ''5a17'')],
        console = [Dir (loggedBody sampleRequest), ErrorText ''DB Query error on register'',
                   ErrorObject (OtherError ''secretOrPrivateKey must have a value'')]\<rparr>"
    unfolding registerRoute_validated [OF sampleRequest_passes]
      inserts_sign_failed [OF sample_stored sample_credential_stored sample_sign_refuses]
    by (simp add: sampleWorld_def sampleEnv_def rowAccountId_def)
  then show ?thesis
    using rejectedRequest_any_key [of "\<lambda>s. None" "load_key Map.empty"]
    by (simp add: load_key_def)
qed

text \<open>
  C7, amended. The key is read from the process environment when the module is loaded,
  whether the variable is set or not, and the route only reads it. With no key
  configured a request is served as with one: validation and both inserts run, the
  absent secret is handed to \<open>jwt.sign\<close>, and when \<open>jwt.sign\<close> throws on it the request
  gets the status 500 rejection, the error is logged, and both rows stay stored.
\<close>

theorem missing_key_per_request:
  assumes "process_env ''JSON_WEB_TOKEN'' = None"
    and "firstFailing env req w validationStages = None"
    and "pool_query env (db w) (accountStatement req) = Inr (r # rs, db1)"
    and "pool_query env db1
           (credentialStatement (rowAccountId r)
              (generateHash env (field req ''password'') (generateSalt env 32))
              (generateSalt env 32)) = Inr (rows2, db2)"
    and "jwt_sign env \<lparr>role = field req ''role'', id = rowAccountId r\<rparr> None ''14 days'' =
           Inl error"
  shows "secret (load_key process_env) = None \<and>
         (\<exists>w'. registerRoute env (load_key process_env) req w =
                  Responded (reject 500 ''server error - contact support'') w' \<and>
               db w' = db2 \<and>
               console w' = console w @
                 [Dir (loggedBody req), ErrorText ''DB Query error on register'',
                  ErrorObject error])"
proof -
  have none: "secret (load_key process_env) = None"
    using assms(1) by (simp add: load_key_def)
  have "jwt_sign env \<lparr>role = field req ''role'', id = rowAccountId r\<rparr>
          (secret (load_key process_env)) ''14 days'' = Inl error"
    using assms(5) none by simp
  from inserts_sign_failed [OF assms(3,4) this] none show ?thesis
    by (simp add: registerRoute_validated [OF assms(2)])
qed

theorem missing_key_per_request_witness:
  "secret (load_key Map.empty) = None \<and>
   (\<exists>w'. registerRoute (sampleEnv (\<lambda>s. None)) (load_key Map.empty) sampleRequest sampleWorld =
            Responded (reject 500 ''server error - contact support'') w' \<and>
          db w' = [accountStatement sampleRequest,
                   credentialStatement (JNumber (Num 1)) (js ''hash'') (js ''5a17'')] \<and>
          console w' =
            [Dir (loggedBody sampleRequest), ErrorText ''DB Query error on register'',
             ErrorObject (OtherError ''secretOrPrivateKey must have a value'')])"
proof -
  have "jwt_sign (sampleEnv (\<lambda>s. None))
     \<lparr>role = field sampleRequest ''role'',
      id = rowAccountId [''account_id'' \<mapsto> JNumber (Num 1)]\<rparr> None ''14 days'' =
     Inl (OtherError ''secretOrPrivateKey must have a value'')"
    by (simp add: sampleEnv_def sampleSign_def)
  from missing_key_per_request [where process_env = Map.empty,
      OF _ sampleRequest_passes sample_stored sample_credential_stored this]
  show ?thesis
    by (simp add: sampleWorld_def)
qed

section \<open>What the route logs\<close>









section \<open>The password in the log\<close>









section \<open>The validators on missing values\<close>

lemma missing_email_errors:
  assumes "body req ''email'' = None"
  shows "registerRoute env k req w = Errored TypeError w"
proof -
  have "stageCheck env req EmailCheck = Inl TypeError"
    using assms by (simp add: isValidEmail_rt_def)
  then show ?thesis
    unfolding registerRoute_firstFailing validationStages_def by simp
qed

lemma missing_password_errors:
  assumes "stageCheck env req EmailCheck = Inr True"
    and "stageCheck env req RequiredFieldsCheck = Inr True"
    and "stageCheck env req PhoneCheck = Inr True"
    and "body req ''password'' = None"
  shows "registerRoute env k req w = Errored TypeError w"
proof -
  have "stageCheck env req PasswordCheck = Inl TypeError"
    using assms(4) by (simp add: isValidPassword_rt_def)
  with assms(1-3) show ?thesis
    unfolding registerRoute_firstFailing validationStages_def
    by (simp del: stageCheck.simps)
qed

lemma noPasswordRequest_stages:
  "stageCheck (sampleEnv fault) noPasswordRequest EmailCheck = Inr True"
  "stageCheck (sampleEnv fault) noPasswordRequest RequiredFieldsCheck = Inr True"
  "stageCheck (sampleEnv fault) noPasswordRequest PhoneCheck = Inr True"
  by (simp_all add: sampleEnv_def noPasswordRequest_def sampleRequest_def field_def
      isValidEmail_rt_def sample_email_valid sample_names_provided
      isValidPhone_rt_def sample_phone_valid)

text \<open>
  C6. The claim asks that no validator ever throws, missing values included. The code
  does not do that: called with the \<open>undefined\<close> of a missing member, \<open>isValidEmail\<close>
  and \<open>isValidPassword\<close> throw a TypeError, and the route ends with that error where its
  messages (\<open>Invalid or missing email\<close>, \<open>Invalid or missing password\<close>) announce a
  rejection. The sibling validators behave as the claim says: \<open>isValidRole\<close> returns
  false on a missing value, and so does \<open>isValidPhone\<close> when \<open>isStringProvided\<close>
  rejects \<open>undefined\<close>.
\<close>

theorem validators_throw_on_missing:
  "isValidEmail_rt lower None = Inl TypeError \<and>
   isValidPassword_rt vf None = Inl TypeError \<and>
   isValidRole_rt vf None = Inr False \<and>
   (\<not> isStringProvided vf JUndefined \<longrightarrow> isValidPhone_rt vf None = Inr False) \<and>
   (body req ''email'' = None \<longrightarrow> registerRoute env k req w = Errored TypeError w) \<and>
   (stageCheck env req EmailCheck = Inr True \<and>
    stageCheck env req RequiredFieldsCheck = Inr True \<and>
    stageCheck env req PhoneCheck = Inr True \<and>
    body req ''password'' = None \<longrightarrow>
      registerRoute env k req w = Errored TypeError w)"
  using missing_email_errors [of req env k w] missing_password_errors [of env req k w]
  by (simp add: isValidEmail_rt_def isValidPassword_rt_def isValidRole_rt_def
      isValidPhone_rt_def del: stageCheck.simps)

theorem validators_throw_on_missing_witness:
  "isValidEmail_rt asciiLower None = Inl TypeError \<and>
   isValidPassword_rt sampleValidation None = Inl TypeError \<and>
   isValidRole_rt sampleValidation None = Inr False \<and>
   isValidPhone_rt sampleValidation None = Inr False \<and>
   registerRoute (sampleEnv (\<lambda>s. None)) sampleKey noEmailRequest sampleWorld =
     Errored TypeError sampleWorld \<and>
   registerRoute (sampleEnv (\<lambda>s. None)) sampleKey noPasswordRequest sampleWorld =
     Errored TypeError sampleWorld"
proof -
  note thm1 = validators_throw_on_missing
    [of asciiLower sampleValidation noEmailRequest "sampleEnv (\<lambda>s. None)" sampleKey sampleWorld]
  note thm2 = validators_throw_on_missing
    [of asciiLower sampleValidation noPasswordRequest "sampleEnv (\<lambda>s. None)" sampleKey
      sampleWorld]
  have u: "\<not> isStringProvided sampleValidation JUndefined"
    by (simp add: sampleValidation_def)
  have e: "body noEmailRequest ''email'' = None"
    by (simp add: noEmailRequest_def)
  have p: "body noPasswordRequest ''password'' = None"
    by (simp add: noPasswordRequest_def)
  have "registerRoute (sampleEnv (\<lambda>s. None)) sampleKey noEmailRequest sampleWorld =
     Errored TypeError sampleWorld"
    using thm1 e by (simp del: stageCheck.simps)
  moreover have "registerRoute (sampleEnv (\<lambda>s. None)) sampleKey noPasswordRequest sampleWorld =
     Errored TypeError sampleWorld"
    using thm2 p noPasswordRequest_stages [of "\<lambda>s. None"] by (simp del: stageCheck.simps)
  moreover have "isValidPhone_rt sampleValidation None = Inr False"
    using thm1 u by (simp del: stageCheck.simps)
  moreover have "isValidEmail_rt asciiLower None = Inl TypeError"
    "isValidPassword_rt sampleValidation None = Inl TypeError"
    "isValidRole_rt sampleValidation None = Inr False"
    using thm1 by (simp_all del: stageCheck.simps)
  ultimately show ?thesis by simp
qed

section \<open>\<open>isValidRole\<close> and what \<open>parseInt\<close> reads\<close>

text \<open>
  Whatever \<open>isNumberProvided\<close> is, \<open>isValidRole(r)\<close> is \<open>isNumberProvided(r)\<close> together
  with \<open>parseInt(r)\<close> being an integer from 1 to 5, and \<open>parseInt\<close> reads a leading digit
  whatever follows it.
\<close>

lemma takeWhile_digit_head:
  assumes "isDecimalDigit d" and "case rest of [] \<Rightarrow> True | c # cs \<Rightarrow> \<not> isDecimalDigit c"
  shows "takeWhile (\<lambda>c. radixDigit 10 c \<noteq> None) (d # rest) = [d]"
  using assms by (cases rest) (simp_all add: radixDigit_10)

lemma parseInt_leading_digit:
  assumes "0x31 \<le> d" and "d \<le> 0x39"
    and "case rest of [] \<Rightarrow> True | c # cs \<Rightarrow> \<not> isDecimalDigit c"
  shows "parseInt (d # rest) = Num (digitValue d)"
proof -
  have digit: "isDecimalDigit d"
    using assms(1,2) by (simp add: isDecimalDigit_def word_le_nat_alt)
  have plain: "\<not> isWhiteSpace d" "d \<noteq> 0x2B" "d \<noteq> 0x2D"
    using digit digit_not_ws digit_not_sign by blast+
  have nonzero: "d \<noteq> 0x30"
    using assms(1) by auto
  have strip: "(case d # rest of a # b # x \<Rightarrow> a = 0x30 \<and> (b = 0x78 \<or> b = 0x58) | _ \<Rightarrow> False) = False"
    using nonzero by (cases rest) simp_all
  have "radixValue 10 [d] = unat d - 48"
    using digit by (simp add: radixValue_def radixDigit_10)
  then show ?thesis
    unfolding parseInt_def
    using plain strip takeWhile_digit_head [OF digit assms(3)] digitValue_unat [OF digit]
    by (simp add: Let_def)
qed

lemma isValidRole_parseInt:
  "isValidRole vf r \<longleftrightarrow>
     isNumberProvided vf (JString r) \<and> (\<exists>n. parseInt r = Num n \<and> 1 \<le> n \<and> n \<le> 5)"
  by (cases "parseInt r") (simp_all add: isValidRole_def)

text \<open>
  So the fractional numeral \<open>3.7\<close>, which \<open>parseInt\<close> reads as 3, is accepted exactly
  when \<open>isNumberProvided\<close> accepts it.
\<close>

lemma isValidRole_fraction:
  "isValidRole vf (js ''3.7'') = isNumberProvided vf (JString (js ''3.7''))"
proof -
  have "parseInt (js ''3.7'') = Num 3"
    by (simp add: js_def parseInt_def radixDigit_10 radixValue_def isWhiteSpace_def
        isDecimalDigit_def)
  then show ?thesis
    by (simp add: isValidRole_def)
qed

end
